theory Spec2Isabelle
  imports Complex_Main
begin

section \<open>Time values and the Date object\<close>

text \<open>
  The webhook route (the file with \<^verbatim>\<open>POST\<close>, \<^verbatim>\<open>handlePaidScenario\<close> and
  \<^verbatim>\<open>handleCancelledScenario\<close>) computes its billing window with the ECMAScript \<^verbatim>\<open>Date\<close>
  object.
  A time value is a number of milliseconds since the epoch, here an \<open>int\<close>. The ISO string
  that \<^verbatim>\<open>toISOString\<close> writes into a row is represented by the time value it denotes.
  The local-time setters (\<^verbatim>\<open>setDate\<close>, \<^verbatim>\<open>setHours\<close>) work in the host's time zone, which
  the language specification gives as the offset function LocalTZA: \<open>tza_utc z t\<close> is the
  offset in force at the UTC instant \<open>t\<close>, \<open>tza_local z t\<close> the offset chosen for the
  local time \<open>t\<close>.
\<close>

definition msPerDay :: int where
  "msPerDay = 86400000"

definition msPerHour :: int where
  "msPerHour = 3600000"

definition msPerMinute :: int where
  "msPerMinute = 60000"

definition msPerSecond :: int where
  "msPerSecond = 1000"

record zone =
  tza_utc :: "int \<Rightarrow> int"
  tza_local :: "int \<Rightarrow> int"

definition fixed_zone :: "int \<Rightarrow> zone" where
  "fixed_zone c = \<lparr>tza_utc = (\<lambda>t. c), tza_local = (\<lambda>t. c)\<rparr>"

definition LocalTime :: "zone \<Rightarrow> int \<Rightarrow> int" where
  "LocalTime z t = t + tza_utc z t"

definition UTC :: "zone \<Rightarrow> int \<Rightarrow> int" where
  "UTC z t = t - tza_local z t"

definition Day :: "int \<Rightarrow> int" where
  "Day t = t div msPerDay"

definition TimeWithinDay :: "int \<Rightarrow> int" where
  "TimeWithinDay t = t mod msPerDay"

definition MakeTime :: "int \<Rightarrow> int \<Rightarrow> int \<Rightarrow> int \<Rightarrow> int" where
  "MakeTime h m s ms = h * msPerHour + m * msPerMinute + s * msPerSecond + ms"

definition MakeDate :: "int \<Rightarrow> int \<Rightarrow> int" where
  "MakeDate d tm = d * msPerDay + tm"

definition TimeClip :: "int \<Rightarrow> int option" where
  "TimeClip t = (if \<bar>t\<bar> > 8640000000000000 then None else Some t)"

text \<open>
  A \<^verbatim>\<open>Date\<close> object holds a time value or NaN (an invalid date), here \<open>None\<close>.
  \<open>addDate z n d\<close> is \<^verbatim>\<open>d.setDate(d.getDate() + n)\<close>: the day of the month of the local
  time is moved by \<open>n\<close>. In the language specification \<^verbatim>\<open>setDate\<close> builds its day with
  MakeDay from the local year, month and the new day of the month, which is the day
  number of the first of the month plus the day of the month minus one; so the local
  day number moves by \<open>n\<close>, months and years rolling over, and the time within the day is
  kept. The result is taken back to UTC and clipped.
  \<open>setHours z h m s ms d\<close> is \<^verbatim>\<open>d.setHours(h, m, s, ms)\<close>: the local day is kept and the
  time within the day replaced.
\<close>

type_synonym Date = "int option"

definition addDate :: "zone \<Rightarrow> int \<Rightarrow> Date \<Rightarrow> Date" where
  "addDate z n d =
     (case d of
        None \<Rightarrow> None
      | Some t \<Rightarrow>
          (let tl = LocalTime z t
           in TimeClip (UTC z (MakeDate (Day tl + n) (TimeWithinDay tl)))))"

definition setHours :: "zone \<Rightarrow> int \<Rightarrow> int \<Rightarrow> int \<Rightarrow> int \<Rightarrow> Date \<Rightarrow> Date" where
  "setHours z h m s ms d =
     (case d of
        None \<Rightarrow> None
      | Some t \<Rightarrow> TimeClip (UTC z (MakeDate (Day (LocalTime z t)) (MakeTime h m s ms))))"


section \<open>The product of a random number and 60\<close>

text \<open>
  Line 123 computes \<^verbatim>\<open>Math.floor(Math.random() * 60)\<close> in IEEE 754 binary64. The value of
  \<^verbatim>\<open>Math.random()\<close> is a double that is at least 0 and less than 1: a natural number
  below \<open>2 ^ 53\<close> divided by a power of two, \<open>dbl_mant / 2 ^ dbl_scale\<close>, with the scale at
  most 1074 (\<open>random_double\<close>).

  \<open>times60\<close> is the binary64 product of such a double and 60. Since 60 is \<open>15 * 2 ^ 2\<close>,
  the exact product is \<open>15 * dbl_mant\<close> times a power of two. A double keeps 53
  significant bits: \<open>excess_bits p\<close> is the number of low bits of \<open>p\<close> beyond 53, and
  \<open>round_half_even p s\<close> drops \<open>s\<close> low bits, rounding to nearest, ties to even. (With
  bits dropped the product is at least \<open>2 ^ (55 - 1074)\<close>, a normal number; with none
  dropped it is exact and its lowest bit is at \<open>2 ^ (2 - 1074)\<close> or above; so the
  subnormal range plays no part, and the product is below 64, far from overflow.)
\<close>

record unit_double =
  dbl_mant :: nat
  dbl_scale :: nat

definition dbl_value :: "unit_double \<Rightarrow> rat" where
  "dbl_value x = of_nat (dbl_mant x) / 2 ^ dbl_scale x"


fun excess_bits :: "nat \<Rightarrow> nat" where
  "excess_bits p = (if p < 2 ^ 53 then 0 else Suc (excess_bits (p div 2)))"

declare excess_bits.simps [simp del]

definition round_half_even :: "nat \<Rightarrow> nat \<Rightarrow> nat" where
  "round_half_even p s =
     (let d = p div 2 ^ s;
          r = p mod 2 ^ s
      in if 2 ^ s < 2 * r \<or> (2 * r = 2 ^ s \<and> odd d) then d + 1 else d)"

definition times60 :: "unit_double \<Rightarrow> rat" where
  "times60 x =
     (let p = 15 * dbl_mant x;
          s = excess_bits p
      in of_nat (round_half_even p s * 2 ^ s * 4) / 2 ^ dbl_scale x)"

section \<open>Values that cross the route's boundary\<close>

text \<open>
  JavaScript truthiness of a string: every string but the empty one. An optional field
  that is absent (\<^verbatim>\<open>undefined\<close>) or \<^verbatim>\<open>null\<close> is falsy.
\<close>

definition truthy :: "string \<Rightarrow> bool" where
  "truthy s = (s \<noteq> [])"

definition truthy_opt :: "string option \<Rightarrow> bool" where
  "truthy_opt v = (case v of None \<Rightarrow> False | Some s \<Rightarrow> truthy s)"

text \<open>
  The interfaces of the route file (lines 16-52), field for field. A field of an object
  inside the JSON is named by its path: \<open>pp_amount_total\<close> is \<^verbatim>\<open>amount.total\<close>,
  \<open>pp_customer_id\<close> is \<^verbatim>\<open>customer.id\<close>. Amounts are whole numbers of the currency's unit.
\<close>

record WebhookPayload =
  payment_id :: string
  payload_status :: string

record PortonePayment =
  pp_id :: string
  pp_paymentId :: "string option"
  pp_amount_total :: int
  pp_orderName :: string
  pp_billingKey :: "string option"
  pp_customer_id :: string

text \<open>
  \<open>PaymentRecord\<close> is the object handed to the ledger insert. The two schedule columns
  are nullable: the cancellation flow tests them for truthiness before it uses them.
  A stored row extends it with the columns the database assigns.
\<close>

record PaymentRecord =
  transaction_key :: string
  amount :: int
  status :: string
  start_at :: int
  end_at :: int
  end_grace_at :: int
  next_schedule_at :: "int option"
  next_schedule_id :: "string option"

record payment_row = PaymentRecord +
  row_id :: nat
  created_at :: int

record ScheduleItem =
  si_id :: string
  si_paymentId :: string

text \<open>
  The schedule query's answer. The route reads \<^verbatim>\<open>data.items || []\<close>, so an answer without
  an items array is a case of its own.
\<close>

record PaymentScheduleResponse =
  items :: "ScheduleItem list option"

text \<open>The body of the schedule registration and the filter of the schedule query.\<close>

record schedule_request =
  sr_scheduleId :: string
  sr_billingKey :: string
  sr_orderName :: string
  sr_customer_id :: string
  sr_amount_total :: int
  sr_currency :: string
  sr_timeToPay :: int

record schedule_filter =
  sf_billingKey :: string
  sf_from :: int
  sf_until :: int

text \<open>
  \<^verbatim>\<open>fetch\<close> either rejects (the request never got an answer) or resolves to a response
  with a status and, when the body parses as JSON, a body. \<^verbatim>\<open>axios.request\<close> rejects on a
  network failure and on every status outside 2xx, and otherwise resolves to the parsed
  data.
\<close>

datatype 'b fetch_result = FetchRejected string | FetchResponse nat "'b option"

datatype axios_result = AxiosRejected string | AxiosResolved PaymentScheduleResponse

definition ok :: "nat \<Rightarrow> bool" where
  "ok st = (200 \<le> st \<and> st \<le> 299)"

text \<open>
  What the route throws. The messages of the source are Korean text; each constructor
  stands for one message template and carries what the template interpolates.
  \<open>PaymentLookupFailed\<close>: the payment lookup answered with a non-2xx status.
  \<open>SupabaseInsertFailed\<close>, \<open>SupabaseCancelInsertFailed\<close>: the ledger insert of the paid
  flow, of the cancellation flow, returned an error.
  \<open>ExistingPaymentNotFound\<close>: no prior paid row; it carries the select error's message,
  or \<open>None\<close> for the fallback text "no data".
  \<open>FetchFailed\<close>, \<open>JsonSyntaxError\<close>, \<open>RangeError\<close>: exceptions of the runtime (a rejected
  \<^verbatim>\<open>fetch\<close>, a body that is not JSON, \<^verbatim>\<open>toISOString\<close> of an invalid date).
\<close>

datatype js_error =
    PaymentLookupFailed nat
  | SupabaseInsertFailed string
  | ExistingPaymentNotFound "string option"
  | SupabaseCancelInsertFailed string
  | FetchFailed string
  | JsonSyntaxError
  | RangeError

datatype reply_note = WebhookProcessed | CancelProcessed

record response =
  success :: bool
  message :: "reply_note option"
  payment :: "payment_row option"
  error :: "js_error option"
  http_status :: nat

section \<open>The world of one delivery\<close>

text \<open>
  Every call that leaves the process is recorded in a trace, in order, with its
  arguments. \<open>ConsoleError\<close> records a \<^verbatim>\<open>console.error\<close> line, tagged by its place in the
  source; the informational \<^verbatim>\<open>console.log\<close> lines are not recorded.
\<close>

datatype log_tag =
    LogPaymentLookupFailed
  | LogInsertFailed
  | LogSelectFailed
  | LogCancelInsertFailed
  | LogScheduleRegisterFailed
  | LogScheduleCancelFailed
  | LogScheduleLookupOrCancelError
  | LogWebhookError

datatype event =
    FetchGetPayment string
  | DbInsert PaymentRecord
  | DbSelectLatestPaid string
  | FetchPostSchedule schedule_request
  | AxiosGetSchedules schedule_filter
  | FetchDeleteSchedules "string list"
  | ConsoleError log_tag

record world =
  ledger :: "payment_row list"
  trace :: "event list"

text \<open>
  The environment of one delivery: the clock, the host's time zone, the random
  sources, and what the gateway and the database answer. \<open>math_random\<close> is the value of
  \<^verbatim>\<open>Math.random()\<close>, a double that the language promises to be at least 0 and less than
  1. \<open>random_uuid\<close> is the value of \<^verbatim>\<open>randomUUID()\<close>.
  \<open>insert_fault\<close> and \<open>select_fault\<close> are the error a ledger call comes back with, if
  any. Reading the text of a response that is not ok (done for the log line only) is
  taken to succeed.
\<close>

record env =
  clock_now :: int
  host_zone :: zone
  math_random :: unit_double
  random_uuid :: string
  db_clock :: int
  get_payment :: "string \<Rightarrow> PortonePayment fetch_result"
  post_schedule :: "schedule_request \<Rightarrow> unit fetch_result"
  get_schedules :: "schedule_filter \<Rightarrow> axios_result"
  delete_schedules :: "string list \<Rightarrow> unit fetch_result"
  insert_fault :: "string option"
  select_fault :: "string option"

definition emit :: "event \<Rightarrow> world \<Rightarrow> world" where
  "emit e w = w\<lparr>trace := trace w @ [e]\<rparr>"

definition toISOString :: "Date \<Rightarrow> js_error + int" where
  "toISOString d = (case d of None \<Rightarrow> Inl RangeError | Some t \<Rightarrow> Inr t)"

text \<open>
  Modelled from the spec: the ledger table itself (its schema and the database behind
  the client) is not part of the route. An insert is atomic; it appends one row, to which
  the database gives an opaque primary key (here the serial number of the row in the
  append-only table) and the insertion time \<open>created_at\<close>, and returns the stored row.
\<close>

definition supabase_insert ::
  "env \<Rightarrow> PaymentRecord \<Rightarrow> world \<Rightarrow> (payment_row option \<times> string option) \<times> world" where
  "supabase_insert e r w =
     (let w1 = emit (DbInsert r) w
      in case insert_fault e of
           Some msg \<Rightarrow> ((None, Some msg), w1)
         | None \<Rightarrow>
             (let row = PaymentRecord.extend r
                          \<lparr>row_id = length (ledger w), created_at = db_clock e\<rparr>
              in ((Some row, None), w1\<lparr>ledger := ledger w1 @ [row]\<rparr>)))"

text \<open>
  The select of the cancellation flow: the rows with the given key and status
  \<^verbatim>\<open>'Paid'\<close>, ordered by \<open>created_at\<close> descending, limit one, \<^verbatim>\<open>single()\<close>.
  \<open>latest\<close> picks a row of greatest \<open>created_at\<close> (among equals the database's choice is
  not specified; the earliest stored is taken). With no row \<^verbatim>\<open>single()\<close> answers with an
  error and no data.
\<close>

fun latest :: "payment_row list \<Rightarrow> payment_row option" where
  "latest [] = None"
| "latest (r # rs) =
     (case latest rs of
        None \<Rightarrow> Some r
      | Some r' \<Rightarrow> if created_at r < created_at r' then Some r' else Some r)"

definition paid_rows :: "string \<Rightarrow> payment_row list \<Rightarrow> payment_row list" where
  "paid_rows k rows = filter (\<lambda>r. transaction_key r = k \<and> status r = ''Paid'') rows"

definition supabase_select_latest_paid ::
  "env \<Rightarrow> string \<Rightarrow> world \<Rightarrow> (payment_row option \<times> string option) \<times> world" where
  "supabase_select_latest_paid e k w =
     (let w1 = emit (DbSelectLatestPaid k) w
      in case select_fault e of
           Some msg \<Rightarrow> ((None, Some msg), w1)
         | None \<Rightarrow>
             (case latest (paid_rows k (ledger w)) of
                None \<Rightarrow> ((None, Some ''PGRST116''), w1)
              | Some r \<Rightarrow> ((Some r, None), w1)))"

definition fetch_payment ::
  "env \<Rightarrow> string \<Rightarrow> world \<Rightarrow> PortonePayment fetch_result \<times> world" where
  "fetch_payment e pid w = (get_payment e pid, emit (FetchGetPayment pid) w)"

definition fetch_post_schedule ::
  "env \<Rightarrow> schedule_request \<Rightarrow> world \<Rightarrow> unit fetch_result \<times> world" where
  "fetch_post_schedule e rq w = (post_schedule e rq, emit (FetchPostSchedule rq) w)"

definition axios_get_schedules ::
  "env \<Rightarrow> schedule_filter \<Rightarrow> world \<Rightarrow> axios_result \<times> world" where
  "axios_get_schedules e f w = (get_schedules e f, emit (AxiosGetSchedules f) w)"

definition fetch_delete_schedules ::
  "env \<Rightarrow> string list \<Rightarrow> world \<Rightarrow> unit fetch_result \<times> world" where
  "fetch_delete_schedules e ids w = (delete_schedules e ids, emit (FetchDeleteSchedules ids) w)"

section \<open>The paid flow\<close>

text \<open>
  Step 4 of \<^verbatim>\<open>handlePaidScenario\<close> (lines 110-123), the date computation: \<open>now\<close> is the clock
  (\<^verbatim>\<open>new Date()\<close> clips its time value as every Date does), \<open>endAt\<close> is \<open>now\<close> moved by 30
  days of the month, \<open>endGraceAt\<close> is \<open>now\<close> moved by 31, \<open>nextScheduleAt\<close> is \<open>endAt\<close>
  moved by one day and set to hour 10, minute \<^verbatim>\<open>Math.floor(Math.random() * 60)\<close> (the
  floor of the binary64 product), second and millisecond 0. The result is the four ISO
  strings the insert writes; the first invalid date makes \<^verbatim>\<open>toISOString\<close> throw.
\<close>

definition paidWindow :: "env \<Rightarrow> js_error + (int \<times> int \<times> int \<times> int)" where
  "paidWindow e =
     (let z = host_zone e;
          now = TimeClip (clock_now e)
      in case toISOString now of
           Inl x \<Rightarrow> Inl x
         | Inr startAt \<Rightarrow>
             (let endAt = addDate z 30 now;
                  endGraceAt = addDate z 31 now;
                  nextScheduleAt =
                    setHours z 10 \<lfloor>times60 (math_random e)\<rfloor> 0 0 (addDate z 1 endAt)
              in case toISOString endAt of
                   Inl x \<Rightarrow> Inl x
                 | Inr endIso \<Rightarrow>
                     (case toISOString endGraceAt of
                        Inl x \<Rightarrow> Inl x
                      | Inr graceIso \<Rightarrow>
                          (case toISOString nextScheduleAt of
                             Inl x \<Rightarrow> Inl x
                           | Inr nextIso \<Rightarrow> Inr (startAt, endIso, graceIso, nextIso)))))"

text \<open>
  Step 6 (lines 151-189): only with a truthy \<^verbatim>\<open>billingKey\<close> the next month's charge is
  registered. The
  \<^verbatim>\<open>fetch\<close> is awaited outside any \<^verbatim>\<open>try\<close>: a rejection leaves the function as an
  exception. A response that is not \<^verbatim>\<open>ok\<close> is logged only.
\<close>

definition scheduleNextPayment ::
  "env \<Rightarrow> PortonePayment \<Rightarrow> string \<Rightarrow> int \<Rightarrow> world \<Rightarrow> (js_error + unit) \<times> world" where
  "scheduleNextPayment e paymentData nextScheduleId nextScheduleAt w =
     (case pp_billingKey paymentData of
        None \<Rightarrow> (Inr (), w)
      | Some bk \<Rightarrow>
          if \<not> truthy bk then (Inr (), w)
          else
            (let (scheduleResponse, w1) =
                   fetch_post_schedule e
                     \<lparr>sr_scheduleId = nextScheduleId,
                      sr_billingKey = bk,
                      sr_orderName = pp_orderName paymentData,
                      sr_customer_id = pp_customer_id paymentData,
                      sr_amount_total = pp_amount_total paymentData,
                      sr_currency = ''KRW'',
                      sr_timeToPay = nextScheduleAt\<rparr> w
             in case scheduleResponse of
                  FetchRejected msg \<Rightarrow> (Inl (FetchFailed msg), w1)
                | FetchResponse st body \<Rightarrow>
                    if \<not> ok st then (Inr (), emit (ConsoleError LogScheduleRegisterFailed) w1)
                    else (Inr (), w1)))"

definition handlePaidScenario ::
  "env \<Rightarrow> string \<Rightarrow> world \<Rightarrow> (js_error + response) \<times> world" where
  "handlePaidScenario e paymentId w =
     (let (paymentResponse, w1) = fetch_payment e paymentId w
      in case paymentResponse of
           FetchRejected msg \<Rightarrow> (Inl (FetchFailed msg), w1)
         | FetchResponse st body \<Rightarrow>
             if \<not> ok st
             then (Inl (PaymentLookupFailed st), emit (ConsoleError LogPaymentLookupFailed) w1)
             else
               (case body of
                  None \<Rightarrow> (Inl JsonSyntaxError, w1)
                | Some paymentData \<Rightarrow>
                    (case paidWindow e of
                       Inl x \<Rightarrow> (Inl x, w1)
                     | Inr (startAt, endIso, graceIso, nextIso) \<Rightarrow>
                         (let nextScheduleId = random_uuid e;
                              ((paymentRecord, insertError), w2) =
                                supabase_insert e
                                  \<lparr>transaction_key = paymentId,
                                   amount = pp_amount_total paymentData,
                                   status = ''Paid'',
                                   start_at = startAt,
                                   end_at = endIso,
                                   end_grace_at = graceIso,
                                   next_schedule_at = Some nextIso,
                                   next_schedule_id = Some nextScheduleId\<rparr> w1
                          in case insertError of
                               Some msg \<Rightarrow>
                                 (Inl (SupabaseInsertFailed msg),
                                  emit (ConsoleError LogInsertFailed) w2)
                             | None \<Rightarrow>
                                 (let (scheduled, w3) =
                                        scheduleNextPayment e paymentData nextScheduleId nextIso w2
                                  in case scheduled of
                                       Inl x \<Rightarrow> (Inl x, w3)
                                     | Inr u \<Rightarrow>
                                         (Inr \<lparr>success = True,
                                               message = Some WebhookProcessed,
                                               payment = paymentRecord,
                                               error = None,
                                               http_status = 200\<rparr>, w3))))))"

section \<open>The cancellation flow\<close>

text \<open>
  Line 223, \<^verbatim>\<open>paymentData.paymentId || paymentData.id || paymentId\<close>: the first truthy
  operand, the last one when none is. The reversal record is the object of lines 243-252.
\<close>

definition actualPaymentId :: "PortonePayment \<Rightarrow> string \<Rightarrow> string" where
  "actualPaymentId paymentData paymentId =
     (let rest = (if truthy (pp_id paymentData) then pp_id paymentData else paymentId)
      in case pp_paymentId paymentData of
           None \<Rightarrow> rest
         | Some s \<Rightarrow> if truthy s then s else rest)"

definition cancelRecord :: "payment_row \<Rightarrow> PaymentRecord" where
  "cancelRecord existingPayment =
     \<lparr>transaction_key = transaction_key existingPayment,
      amount = - amount existingPayment,
      status = ''Cancel'',
      start_at = start_at existingPayment,
      end_at = end_at existingPayment,
      end_grace_at = end_grace_at existingPayment,
      next_schedule_at = next_schedule_at existingPayment,
      next_schedule_id = next_schedule_id existingPayment\<rparr>"

text \<open>
  The search window of the schedule query (lines 274-278): the stored
  \<open>next_schedule_at\<close> read back into a Date, moved by one day of the month down and up.
\<close>

definition scheduleSearchWindow :: "zone \<Rightarrow> int \<Rightarrow> Date \<times> Date" where
  "scheduleSearchWindow z nextAt =
     (let scheduleDate = TimeClip nextAt;
          fromDate = addDate z (- 1) scheduleDate;
          untilDate = addDate z 1 scheduleDate
      in (fromDate, untilDate))"

text \<open>
  Step 3-2 (lines 268-341), the cancellation of next month's schedule, entered only when
  the billing key and both schedule columns of the found row are truthy (a stored
  timestamp is a non-empty string, so it is truthy unless null). Everything from the
  schedule query on stands inside one \<^verbatim>\<open>try\<close>, whose \<^verbatim>\<open>catch\<close> logs and goes on: the
  step never throws. \<^verbatim>\<open>find\<close> returns the first item that matches.
\<close>

definition cancelNextSchedule ::
  "env \<Rightarrow> PortonePayment \<Rightarrow> payment_row \<Rightarrow> world \<Rightarrow> world" where
  "cancelNextSchedule e paymentData existingPayment w =
     (case pp_billingKey paymentData of
        None \<Rightarrow> w
      | Some bk \<Rightarrow>
          (case next_schedule_at existingPayment of
             None \<Rightarrow> w
           | Some nextAt \<Rightarrow>
               if \<not> (truthy bk \<and> truthy_opt (next_schedule_id existingPayment)) then w
               else
                 (case scheduleSearchWindow (host_zone e) nextAt of
                    (fromDate, untilDate) \<Rightarrow>
                      (case toISOString fromDate of
                         Inl x \<Rightarrow> emit (ConsoleError LogScheduleLookupOrCancelError) w
                       | Inr fromIso \<Rightarrow>
                           (case toISOString untilDate of
                              Inl x \<Rightarrow> emit (ConsoleError LogScheduleLookupOrCancelError) w
                            | Inr untilIso \<Rightarrow>
                                (let (scheduleResponse, w1) =
                                       axios_get_schedules e
                                         \<lparr>sf_billingKey = bk, sf_from = fromIso,
                                          sf_until = untilIso\<rparr> w
                                 in case scheduleResponse of
                                      AxiosRejected msg \<Rightarrow>
                                        emit (ConsoleError LogScheduleLookupOrCancelError) w1
                                    | AxiosResolved dat \<Rightarrow>
                                        (let scheduleItems =
                                               (case items dat of None \<Rightarrow> [] | Some xs \<Rightarrow> xs);
                                             targetSchedule =
                                               find (\<lambda>item. Some (si_paymentId item) =
                                                        next_schedule_id existingPayment)
                                                 scheduleItems
                                         in case targetSchedule of
                                              None \<Rightarrow> w1
                                            | Some target \<Rightarrow>
                                                (let (cancelScheduleResponse, w2) =
                                                       fetch_delete_schedules e [si_id target] w1
                                                 in case cancelScheduleResponse of
                                                      FetchRejected msg \<Rightarrow>
                                                        emit (ConsoleError
                                                          LogScheduleLookupOrCancelError) w2
                                                    | FetchResponse st body \<Rightarrow>
                                                        if \<not> ok st
                                                        then emit (ConsoleError
                                                               LogScheduleCancelFailed) w2
                                                        else w2))))))))"

definition handleCancelledScenario ::
  "env \<Rightarrow> string \<Rightarrow> world \<Rightarrow> (js_error + response) \<times> world" where
  "handleCancelledScenario e paymentId w =
     (let (paymentResponse, w1) = fetch_payment e paymentId w
      in case paymentResponse of
           FetchRejected msg \<Rightarrow> (Inl (FetchFailed msg), w1)
         | FetchResponse st body \<Rightarrow>
             if \<not> ok st
             then (Inl (PaymentLookupFailed st), emit (ConsoleError LogPaymentLookupFailed) w1)
             else
               (case body of
                  None \<Rightarrow> (Inl JsonSyntaxError, w1)
                | Some paymentData \<Rightarrow>
                    (let ((existingPayment, selectError), w2) =
                           supabase_select_latest_paid e
                             (actualPaymentId paymentData paymentId) w1
                     in case selectError of
                          Some msg \<Rightarrow>
                            (Inl (ExistingPaymentNotFound (if truthy msg then Some msg else None)),
                             emit (ConsoleError LogSelectFailed) w2)
                        | None \<Rightarrow>
                            (case existingPayment of
                               None \<Rightarrow>
                                 (Inl (ExistingPaymentNotFound None),
                                  emit (ConsoleError LogSelectFailed) w2)
                             | Some found \<Rightarrow>
                                 (let ((cancelPaymentRecord, insertError), w3) =
                                        supabase_insert e (cancelRecord found) w2
                                  in case insertError of
                                       Some msg \<Rightarrow>
                                         (Inl (SupabaseCancelInsertFailed msg),
                                          emit (ConsoleError LogCancelInsertFailed) w3)
                                     | None \<Rightarrow>
                                         (Inr \<lparr>success = True,
                                               message = Some CancelProcessed,
                                               payment = cancelPaymentRecord,
                                               error = None,
                                               http_status = 200\<rparr>,
                                          cancelNextSchedule e paymentData found w3))))))"

section \<open>The dispatcher\<close>

text \<open>
  \<^verbatim>\<open>POST\<close> (lines 54-86): the request body is parsed (\<open>None\<close>: it is not JSON, and \<^verbatim>\<open>request.json()\<close>
  throws), the status tag selects the flow, every other tag is acknowledged. Whatever a
  flow throws is caught, logged and answered with status 500.
\<close>

definition POST :: "env \<Rightarrow> WebhookPayload option \<Rightarrow> world \<Rightarrow> response \<times> world" where
  "POST e request w =
     (let (outcome, w') =
            (case request of
               None \<Rightarrow> (Inl JsonSyntaxError, w)
             | Some payload \<Rightarrow>
                 if payload_status payload = ''Paid''
                 then handlePaidScenario e (payment_id payload) w
                 else if payload_status payload = ''Cancelled''
                 then handleCancelledScenario e (payment_id payload) w
                 else (Inr \<lparr>success = True, message = None, payment = None,
                            error = None, http_status = 200\<rparr>, w))
      in case outcome of
           Inr resp \<Rightarrow> (resp, w')
         | Inl x \<Rightarrow>
             (\<lparr>success = False, message = None, payment = None,
               error = Some x, http_status = 500\<rparr>,
              emit (ConsoleError LogWebhookError) w'))"

section \<open>Classifying the recorded calls\<close>

fun is_ledger_insert :: "event \<Rightarrow> bool" where
  "is_ledger_insert (DbInsert r) = True"
| "is_ledger_insert ev = False"

fun is_ledger_select :: "event \<Rightarrow> bool" where
  "is_ledger_select (DbSelectLatestPaid k) = True"
| "is_ledger_select ev = False"

fun is_create_schedule :: "event \<Rightarrow> bool" where
  "is_create_schedule (FetchPostSchedule rq) = True"
| "is_create_schedule ev = False"

fun is_query_schedules :: "event \<Rightarrow> bool" where
  "is_query_schedules (AxiosGetSchedules f) = True"
| "is_query_schedules ev = False"

fun is_cancel_schedules :: "event \<Rightarrow> bool" where
  "is_cancel_schedules (FetchDeleteSchedules ids) = True"
| "is_cancel_schedules ev = False"

fun is_console :: "event \<Rightarrow> bool" where
  "is_console (ConsoleError tag) = True"
| "is_console ev = False"

definition is_schedule_call :: "event \<Rightarrow> bool" where
  "is_schedule_call ev =
     (is_create_schedule ev \<or> is_query_schedules ev \<or> is_cancel_schedules ev)"

section \<open>Sample deliveries\<close>

text \<open>
  The end-to-end example: payment \<open>pay_1\<close> of 9900 with billing key \<open>bk_1\<close>, delivered at
  2024-01-01T00:00:00Z on a host running in UTC, \<^verbatim>\<open>Math.random()\<close> giving 0.40625; every
  call answers with success, and the schedule query lists the schedule registered under
  the minted id.
\<close>

definition pay_1_detail :: PortonePayment where
  "pay_1_detail =
     \<lparr>pp_id = ''pay_1'', pp_paymentId = None, pp_amount_total = 9900,
      pp_orderName = ''monthly'', pp_billingKey = Some ''bk_1'',
      pp_customer_id = ''cus_1''\<rparr>"

definition demo_env :: env where
  "demo_env =
     \<lparr>clock_now = 1704067200000,
      host_zone = fixed_zone 0,
      math_random = \<lparr>dbl_mant = 13, dbl_scale = 5\<rparr>,
      random_uuid = ''sched_1'',
      db_clock = 1704067200500,
      get_payment = (\<lambda>p. FetchResponse 200 (Some pay_1_detail)),
      post_schedule = (\<lambda>rq. FetchResponse 200 None),
      get_schedules =
        (\<lambda>f. AxiosResolved
                \<lparr>items = Some [\<lparr>si_id = ''other'', si_paymentId = ''sched_0''\<rparr>,
                               \<lparr>si_id = ''sch_A'', si_paymentId = ''sched_1''\<rparr>]\<rparr>),
      delete_schedules = (\<lambda>ids. FetchResponse 200 None),
      insert_fault = None,
      select_fault = None\<rparr>"

definition empty_world :: world where
  "empty_world = \<lparr>ledger = [], trace = []\<rparr>"

definition paid_event :: WebhookPayload where
  "paid_event = \<lparr>payment_id = ''pay_1'', payload_status = ''Paid''\<rparr>"

definition cancelled_event :: WebhookPayload where
  "cancelled_event = \<lparr>payment_id = ''pay_1'', payload_status = ''Cancelled''\<rparr>"




text \<open>
  A one-time payment (no billing key), and the ledger as the first sample delivery
  leaves it.
\<close>

definition one_time_env :: env where
  "one_time_env =
     demo_env\<lparr>get_payment :=
                (\<lambda>p. FetchResponse 200 (Some (pay_1_detail\<lparr>pp_billingKey := None\<rparr>)))\<rparr>"

definition pay_1_row :: payment_row where
  "pay_1_row =
     \<lparr>transaction_key = ''pay_1'', amount = 9900, status = ''Paid'',
      start_at = 1704067200000, end_at = 1706659200000, end_grace_at = 1706745600000,
      next_schedule_at = Some 1706783040000, next_schedule_id = Some ''sched_1'',
      row_id = 0, created_at = 1704067200500\<rparr>"

definition paid_world :: world where
  "paid_world = \<lparr>ledger = [pay_1_row], trace = []\<rparr>"

text \<open>A delivery during which the schedule registration never gets an answer.\<close>

definition offline_schedule_env :: env where
  "offline_schedule_env = demo_env\<lparr>post_schedule := (\<lambda>rq. FetchRejected ''fetch failed'')\<rparr>"

section \<open>Facts about the date arithmetic\<close>

lemma ledger_emit [simp]: "ledger (emit ev w) = ledger w"
  by (simp add: emit_def)

lemma trace_emit [simp]: "trace (emit ev w) = trace w @ [ev]"
  by (simp add: emit_def)

lemma world_trace_append_Nil [simp]: "w\<lparr>trace := trace w\<rparr> = (w::world)"
  by simp










lemma excess_bits_small: "p < 2 ^ 53 \<Longrightarrow> excess_bits p = 0"
  by (subst excess_bits.simps) simp


lemma round_half_even_exact: "round_half_even p 0 = p"
  by (simp add: round_half_even_def)

lemma times60_exact:
  assumes "15 * dbl_mant x < 2 ^ 53"
  shows "times60 x = 60 * dbl_value x"
  using assms by (simp add: times60_def dbl_value_def Let_def excess_bits_small round_half_even_exact)


lemma times60_rounds_up:
  "\<lfloor>times60 \<lparr>dbl_mant = 2552039788843281, dbl_scale = 52\<rparr>\<rfloor> = 34
   \<and> \<lfloor>60 * dbl_value \<lparr>dbl_mant = 2552039788843281, dbl_scale = 52\<rparr>\<rfloor> = 33"
proof -
  have "excess_bits 38280596832649215 = 3"
    by (simp add: excess_bits.simps [of 38280596832649215]
        excess_bits.simps [of 19140298416324607] excess_bits.simps [of 9570149208162303]
        excess_bits.simps [of 4785074604081151])
  then have "\<lfloor>times60 \<lparr>dbl_mant = 2552039788843281, dbl_scale = 52\<rparr>\<rfloor> = 34"
    by (simp add: times60_def Let_def round_half_even_def)
  moreover have "\<lfloor>60 * dbl_value \<lparr>dbl_mant = 2552039788843281, dbl_scale = 52\<rparr>\<rfloor> = 33"
    by (simp add: dbl_value_def floor_eq_iff)
  ultimately show ?thesis by simp
qed



section \<open>Facts about the ledger\<close>

lemma supabase_insert_ok:
  assumes "insert_fault e = None"
  shows "supabase_insert e r w =
           ((Some (PaymentRecord.extend r \<lparr>row_id = length (ledger w), created_at = db_clock e\<rparr>), None),
            w\<lparr>ledger := ledger w @ [PaymentRecord.extend r \<lparr>row_id = length (ledger w), created_at = db_clock e\<rparr>],
              trace := trace w @ [DbInsert r]\<rparr>)"
  using assms by (simp add: supabase_insert_def Let_def emit_def)

lemma supabase_insert_fault:
  assumes "insert_fault e = Some msg"
  shows "supabase_insert e r w = ((None, Some msg), w\<lparr>trace := trace w @ [DbInsert r]\<rparr>)"
  using assms by (simp add: supabase_insert_def Let_def emit_def)

lemma latest_None: "latest xs = None \<longleftrightarrow> xs = []"
  by (induction xs) (auto split: option.splits)

lemma latest_Some:
  "latest xs = Some r \<Longrightarrow> r \<in> set xs \<and> (\<forall>x\<in>set xs. created_at x \<le> created_at r)"
proof (induction xs arbitrary: r)
  case Nil
  then show ?case by simp
next
  case (Cons a xs)
  show ?case
  proof (cases "latest xs")
    case None
    then have "xs = []" by (simp add: latest_None)
    with Cons.prems show ?thesis by simp
  next
    case (Some b)
    from Cons.IH [OF Some] have b: "b \<in> set xs" "\<forall>x\<in>set xs. created_at x \<le> created_at b"
      by simp_all
    show ?thesis
    proof (cases "created_at a < created_at b")
      case True
      with Some Cons.prems have "r = b" by simp
      with b True show ?thesis by auto
    next
      case False
      with Some Cons.prems have "r = a" by simp
      with b False show ?thesis by fastforce
    qed
  qed
qed

lemma paid_rows_member:
  "p \<in> set (paid_rows k rows) \<longleftrightarrow> p \<in> set rows \<and> transaction_key p = k \<and> status p = ''Paid''"
  by (auto simp: paid_rows_def)

lemma latest_paid_row:
  assumes "latest (paid_rows k rows) = Some found"
  shows "found \<in> set rows \<and> transaction_key found = k \<and> status found = ''Paid''
         \<and> (\<forall>p\<in>set rows. transaction_key p = k \<and> status p = ''Paid''
               \<longrightarrow> created_at p \<le> created_at found)"
  using latest_Some [OF assms] by (auto simp: paid_rows_member)

lemma latest_paid_exists:
  assumes "p \<in> set rows" and "transaction_key p = k" and "status p = ''Paid''"
  shows "\<exists>found. latest (paid_rows k rows) = Some found"
proof (cases "latest (paid_rows k rows)")
  case None
  then have "paid_rows k rows = []" by (simp add: latest_None)
  with assms show ?thesis using paid_rows_member [of p k rows] by simp
next
  case (Some a)
  then show ?thesis by blast
qed

lemma supabase_select_found:
  assumes "select_fault e = None" and "latest (paid_rows k (ledger w)) = Some found"
  shows "supabase_select_latest_paid e k w =
           ((Some found, None), w\<lparr>trace := trace w @ [DbSelectLatestPaid k]\<rparr>)"
  using assms by (simp add: supabase_select_latest_paid_def Let_def emit_def)

section \<open>Facts about the recorded calls\<close>

lemma console_no_ledger_insert:
  "list_all is_console logs \<Longrightarrow> filter is_ledger_insert logs = []"
proof (induction logs)
  case Nil
  then show ?case by simp
next
  case (Cons ev logs)
  then show ?case by (cases ev) simp_all
qed

lemma console_no_ledger_select:
  "list_all is_console logs \<Longrightarrow> filter is_ledger_select logs = []"
proof (induction logs)
  case Nil
  then show ?case by simp
next
  case (Cons ev logs)
  then show ?case by (cases ev) simp_all
qed

lemma console_no_create_schedule:
  "list_all is_console logs \<Longrightarrow> filter is_create_schedule logs = []"
proof (induction logs)
  case Nil
  then show ?case by simp
next
  case (Cons ev logs)
  then show ?case by (cases ev) simp_all
qed

lemma console_no_cancel_schedules:
  "list_all is_console logs \<Longrightarrow> filter is_cancel_schedules logs = []"
proof (induction logs)
  case Nil
  then show ?case by simp
next
  case (Cons ev logs)
  then show ?case by (cases ev) simp_all
qed

lemma console_no_query:
  "list_all is_console logs \<Longrightarrow> AxiosGetSchedules f \<notin> set logs"
proof (induction logs)
  case Nil
  then show ?case by simp
next
  case (Cons ev logs)
  then show ?case by (cases ev) simp_all
qed

lemma schedule_call_simps [simp]:
  "\<not> is_schedule_call (FetchGetPayment p)"
  "\<not> is_schedule_call (DbInsert r)"
  "\<not> is_schedule_call (DbSelectLatestPaid k)"
  "\<not> is_schedule_call (ConsoleError tag)"
  "is_schedule_call (FetchPostSchedule rq)"
  "is_schedule_call (AxiosGetSchedules f)"
  "is_schedule_call (FetchDeleteSchedules ids)"
  by (simp_all add: is_schedule_call_def)

section \<open>The paid flow, case by case\<close>



lemma scheduleNextPayment_skip:
  assumes "\<not> truthy_opt (pp_billingKey pd)"
  shows "scheduleNextPayment e pd sid nx w = (Inr (), w)"
  using assms by (simp add: scheduleNextPayment_def truthy_opt_def split: option.splits)

lemma scheduleNextPayment_call:
  assumes "pp_billingKey pd = Some bk" and "truthy bk"
    and "rq = \<lparr>sr_scheduleId = sid, sr_billingKey = bk, sr_orderName = pp_orderName pd,
                sr_customer_id = pp_customer_id pd, sr_amount_total = pp_amount_total pd,
                sr_currency = ''KRW'', sr_timeToPay = nx\<rparr>"
  shows "\<exists>logs. snd (scheduleNextPayment e pd sid nx w) =
                  w\<lparr>trace := trace w @ FetchPostSchedule rq # logs\<rparr>
               \<and> list_all is_console logs"
proof (cases "post_schedule e rq")
  case (FetchRejected msg)
  then have "snd (scheduleNextPayment e pd sid nx w) =
               w\<lparr>trace := trace w @ FetchPostSchedule rq # []\<rparr>"
    using assms by (simp add: scheduleNextPayment_def fetch_post_schedule_def emit_def)
  then show ?thesis by (intro exI [of _ "[]"]) simp
next
  case (FetchResponse st body)
  show ?thesis
  proof (cases "ok st")
    case True
    then have "snd (scheduleNextPayment e pd sid nx w) =
               w\<lparr>trace := trace w @ FetchPostSchedule rq # []\<rparr>"
      using assms FetchResponse
      by (simp add: scheduleNextPayment_def fetch_post_schedule_def emit_def)
    then show ?thesis by (intro exI [of _ "[]"]) simp
  next
    case False
    then have "snd (scheduleNextPayment e pd sid nx w) =
               w\<lparr>trace := trace w @ FetchPostSchedule rq # [ConsoleError LogScheduleRegisterFailed]\<rparr>"
      using assms FetchResponse
      by (simp add: scheduleNextPayment_def fetch_post_schedule_def emit_def)
    then show ?thesis by (intro exI [of _ "[ConsoleError LogScheduleRegisterFailed]"]) simp
  qed
qed

lemma scheduleNextPayment_answered:
  assumes "\<And>rq. \<exists>st body. post_schedule e rq = FetchResponse st body"
  shows "fst (scheduleNextPayment e pd sid nx w) = Inr ()"
proof (cases "pp_billingKey pd")
  case None
  then show ?thesis by (simp add: scheduleNextPayment_def)
next
  case (Some bk)
  let ?rq = "\<lparr>sr_scheduleId = sid, sr_billingKey = bk, sr_orderName = pp_orderName pd,
                sr_customer_id = pp_customer_id pd, sr_amount_total = pp_amount_total pd,
                sr_currency = ''KRW'', sr_timeToPay = nx\<rparr>"
  from assms obtain st body where "post_schedule e ?rq = FetchResponse st body" by blast
  with Some show ?thesis
    by (simp add: scheduleNextPayment_def fetch_post_schedule_def)
qed

lemma scheduleNextPayment_trace:
  "\<exists>new. snd (scheduleNextPayment e pd sid nx w) = w\<lparr>trace := trace w @ new\<rparr>
         \<and> filter is_ledger_insert new = []"
proof (cases "truthy_opt (pp_billingKey pd)")
  case False
  then show ?thesis
    by (intro exI [of _ "[]"]) (simp add: scheduleNextPayment_skip)
next
  case True
  then obtain bk where bk: "pp_billingKey pd = Some bk" "truthy bk"
    by (cases "pp_billingKey pd") (simp_all add: truthy_opt_def)
  from scheduleNextPayment_call [OF bk refl, of e sid nx w]
  obtain logs where "snd (scheduleNextPayment e pd sid nx w) =
      w\<lparr>trace := trace w @
           FetchPostSchedule
             \<lparr>sr_scheduleId = sid, sr_billingKey = bk, sr_orderName = pp_orderName pd,
              sr_customer_id = pp_customer_id pd, sr_amount_total = pp_amount_total pd,
              sr_currency = ''KRW'', sr_timeToPay = nx\<rparr> # logs\<rparr>"
    "list_all is_console logs"
    by (elim exE conjE)
  then show ?thesis
    by (intro exI [of _ "FetchPostSchedule
             \<lparr>sr_scheduleId = sid, sr_billingKey = bk, sr_orderName = pp_orderName pd,
              sr_customer_id = pp_customer_id pd, sr_amount_total = pp_amount_total pd,
              sr_currency = ''KRW'', sr_timeToPay = nx\<rparr> # logs"])
      (simp add: console_no_ledger_insert)
qed

lemma handlePaidScenario_rejected:
  assumes "get_payment e pid = FetchRejected msg"
  shows "handlePaidScenario e pid w =
           (Inl (FetchFailed msg), w\<lparr>trace := trace w @ [FetchGetPayment pid]\<rparr>)"
  using assms by (simp add: handlePaidScenario_def fetch_payment_def emit_def)

lemma handlePaidScenario_not_ok:
  assumes "get_payment e pid = FetchResponse st body" and "\<not> ok st"
  shows "handlePaidScenario e pid w =
           (Inl (PaymentLookupFailed st),
            w\<lparr>trace := trace w @ [FetchGetPayment pid, ConsoleError LogPaymentLookupFailed]\<rparr>)"
  using assms by (simp add: handlePaidScenario_def fetch_payment_def emit_def)

lemma handlePaidScenario_no_body:
  assumes "get_payment e pid = FetchResponse st None" and "ok st"
  shows "handlePaidScenario e pid w =
           (Inl JsonSyntaxError, w\<lparr>trace := trace w @ [FetchGetPayment pid]\<rparr>)"
  using assms by (simp add: handlePaidScenario_def fetch_payment_def emit_def)

lemma handlePaidScenario_window_error:
  assumes "get_payment e pid = FetchResponse st (Some pd)" and "ok st"
    and "paidWindow e = Inl x"
  shows "handlePaidScenario e pid w = (Inl x, w\<lparr>trace := trace w @ [FetchGetPayment pid]\<rparr>)"
  using assms by (simp add: handlePaidScenario_def fetch_payment_def emit_def)

lemma handlePaidScenario_insert_fault:
  assumes "get_payment e pid = FetchResponse st (Some pd)" and "ok st"
    and "paidWindow e = Inr (s, en, g, nx)"
    and "insert_fault e = Some msg"
  shows "\<exists>r. handlePaidScenario e pid w =
           (Inl (SupabaseInsertFailed msg),
            w\<lparr>trace := trace w @ [FetchGetPayment pid, DbInsert r,
                                  ConsoleError LogInsertFailed]\<rparr>)"
  using assms
  by (auto simp: handlePaidScenario_def fetch_payment_def emit_def supabase_insert_fault)

lemma handlePaidScenario_reached:
  assumes "get_payment e pid = FetchResponse st (Some pd)" and "ok st"
    and "paidWindow e = Inr (s, en, g, nx)"
    and "insert_fault e = None"
    and "r = \<lparr>transaction_key = pid, amount = pp_amount_total pd, status = ''Paid'',
               start_at = s, end_at = en, end_grace_at = g,
               next_schedule_at = Some nx, next_schedule_id = Some (random_uuid e)\<rparr>"
    and "row = PaymentRecord.extend r \<lparr>row_id = length (ledger w), created_at = db_clock e\<rparr>"
    and "scheduleNextPayment e pd (random_uuid e) nx
           (w\<lparr>ledger := ledger w @ [row],
              trace := trace w @ [FetchGetPayment pid, DbInsert r]\<rparr>) = (scheduled, w3)"
  shows "handlePaidScenario e pid w =
           (case scheduled of
              Inl x \<Rightarrow> (Inl x, w3)
            | Inr u \<Rightarrow>
                (Inr \<lparr>success = True, message = Some WebhookProcessed,
                      payment = Some row, error = None, http_status = 200\<rparr>, w3))"
  using assms
  by (simp add: handlePaidScenario_def fetch_payment_def Let_def supabase_insert_ok emit_def
      cong: sum.case_cong)

lemma snd_handlePaidScenario_reached:
  assumes "get_payment e pid = FetchResponse st (Some pd)" and "ok st"
    and "paidWindow e = Inr (s, en, g, nx)"
    and "insert_fault e = None"
    and "r = \<lparr>transaction_key = pid, amount = pp_amount_total pd, status = ''Paid'',
               start_at = s, end_at = en, end_grace_at = g,
               next_schedule_at = Some nx, next_schedule_id = Some (random_uuid e)\<rparr>"
    and "row = PaymentRecord.extend r \<lparr>row_id = length (ledger w), created_at = db_clock e\<rparr>"
  shows "snd (handlePaidScenario e pid w) =
           snd (scheduleNextPayment e pd (random_uuid e) nx
                  (w\<lparr>ledger := ledger w @ [row],
                     trace := trace w @ [FetchGetPayment pid, DbInsert r]\<rparr>))"
    and "fst (handlePaidScenario e pid w) =
           (case fst (scheduleNextPayment e pd (random_uuid e) nx
                  (w\<lparr>ledger := ledger w @ [row],
                     trace := trace w @ [FetchGetPayment pid, DbInsert r]\<rparr>)) of
              Inl x \<Rightarrow> Inl x
            | Inr u \<Rightarrow> Inr \<lparr>success = True, message = Some WebhookProcessed,
                      payment = Some row, error = None, http_status = 200\<rparr>)"
proof -
  let ?w2 = "w\<lparr>ledger := ledger w @ [row],
              trace := trace w @ [FetchGetPayment pid, DbInsert r]\<rparr>"
  obtain scheduled w3 where
    sc: "scheduleNextPayment e pd (random_uuid e) nx ?w2 = (scheduled, w3)"
    by (cases "scheduleNextPayment e pd (random_uuid e) nx ?w2")
  note h = handlePaidScenario_reached [OF assms sc]
  show "snd (handlePaidScenario e pid w) = snd (scheduleNextPayment e pd (random_uuid e) nx ?w2)"
    unfolding h sc by (simp split: sum.splits)
  show "fst (handlePaidScenario e pid w) =
           (case fst (scheduleNextPayment e pd (random_uuid e) nx ?w2) of
              Inl x \<Rightarrow> Inl x
            | Inr u \<Rightarrow> Inr \<lparr>success = True, message = Some WebhookProcessed,
                      payment = Some row, error = None, http_status = 200\<rparr>)"
    unfolding h sc by (simp split: sum.splits)
qed


lemma handlePaidScenario_Inr:
  assumes "fst (handlePaidScenario e pid w) = Inr resp"
  obtains st pd s en g nx where
    "get_payment e pid = FetchResponse st (Some pd)" "ok st"
    "paidWindow e = Inr (s, en, g, nx)" "insert_fault e = None"
proof (cases "get_payment e pid")
  case (FetchRejected msg)
  from handlePaidScenario_rejected [OF this, of w] assms show ?thesis by simp
next
  case (FetchResponse st body)
  show ?thesis
  proof (cases "ok st")
    case False
    from handlePaidScenario_not_ok [OF FetchResponse False, of w] assms show ?thesis by simp
  next
    case True
    show ?thesis
    proof (cases body)
      case None
      from handlePaidScenario_no_body [OF FetchResponse [unfolded None] True, of w] assms
      show ?thesis by simp
    next
      case (Some pd)
      note gp = FetchResponse [unfolded Some]
      show ?thesis
      proof (cases "paidWindow e")
        case (Inl x)
        from handlePaidScenario_window_error [OF gp True Inl, of w] assms show ?thesis by simp
      next
        case (Inr win)
        obtain s en g nx where win: "paidWindow e = Inr (s, en, g, nx)"
          using Inr by (cases win) auto
        show ?thesis
        proof (cases "insert_fault e")
          case None
          from gp True win None show ?thesis by (rule that)
        next
          case (Some msg)
          from handlePaidScenario_insert_fault [OF gp True win Some, of w] assms
          show ?thesis by auto
        qed
      qed
    qed
  qed
qed

lemma paid_success_appends_row:
  assumes "fst (handlePaidScenario e pid w) = Inr resp"
  shows "\<exists>row. ledger (snd (handlePaidScenario e pid w)) = ledger w @ [row]
           \<and> row_id row = length (ledger w)
           \<and> transaction_key row = pid \<and> status row = ''Paid''
           \<and> payment resp = Some row \<and> success resp
           \<and> length (filter is_ledger_insert (trace (snd (handlePaidScenario e pid w)))) =
               length (filter is_ledger_insert (trace w)) + 1"
proof -
  from assms obtain st pd s en g nx where
    reach: "get_payment e pid = FetchResponse st (Some pd)" "ok st"
      "paidWindow e = Inr (s, en, g, nx)" "insert_fault e = None"
    by (rule handlePaidScenario_Inr)
  let ?r = "\<lparr>transaction_key = pid, amount = pp_amount_total pd, status = ''Paid'',
               start_at = s, end_at = en, end_grace_at = g,
               next_schedule_at = Some nx, next_schedule_id = Some (random_uuid e)\<rparr>"
  let ?row = "PaymentRecord.extend ?r \<lparr>row_id = length (ledger w), created_at = db_clock e\<rparr>"
  let ?w2 = "w\<lparr>ledger := ledger w @ [?row],
              trace := trace w @ [FetchGetPayment pid, DbInsert ?r]\<rparr>"
  note sn = snd_handlePaidScenario_reached [OF reach refl refl, of w]
  from scheduleNextPayment_trace [of e pd "random_uuid e" nx ?w2]
  obtain new where n: "snd (scheduleNextPayment e pd (random_uuid e) nx ?w2) =
                         ?w2\<lparr>trace := trace ?w2 @ new\<rparr>"
    "filter is_ledger_insert new = []"
    by (elim exE conjE)
  have w': "snd (handlePaidScenario e pid w) = ?w2\<lparr>trace := trace ?w2 @ new\<rparr>"
    using sn(1) n(1) by simp
  have resp: "resp = \<lparr>success = True, message = Some WebhookProcessed,
                      payment = Some ?row, error = None, http_status = 200\<rparr>"
    using sn(2) assms by (simp split: sum.splits)
  show ?thesis
    apply (rule exI [of _ ?row])
    using n(2) by (simp add: w' resp PaymentRecord.extend_def)
qed

lemma paid_without_billing_key:
  assumes "get_payment e pid = FetchResponse st (Some pd)"
    and "\<not> truthy_opt (pp_billingKey pd)"
  shows "(\<exists>new. trace (snd (handlePaidScenario e pid w)) = trace w @ new
            \<and> filter is_schedule_call new = [])
       \<and> ((\<exists>resp. fst (handlePaidScenario e pid w) = Inr resp \<and> success resp)
            \<longleftrightarrow> (ok st \<and> (\<exists>win. paidWindow e = Inr win) \<and> insert_fault e = None))"
proof (cases "ok st")
  case False
  from handlePaidScenario_not_ok [OF assms(1) False, of w] False show ?thesis
    by (intro conjI exI [of _ "[FetchGetPayment pid, ConsoleError LogPaymentLookupFailed]"])
      simp_all
next
  case True
  show ?thesis
  proof (cases "paidWindow e")
    case (Inl x)
    from handlePaidScenario_window_error [OF assms(1) True Inl, of w] Inl show ?thesis
      by (intro conjI exI [of _ "[FetchGetPayment pid]"]) simp_all
  next
    case (Inr win)
    obtain s en g nx where win: "paidWindow e = Inr (s, en, g, nx)"
      using Inr by (cases win) auto
    show ?thesis
    proof (cases "insert_fault e")
      case (Some msg)
      from handlePaidScenario_insert_fault [OF assms(1) True win Some, of w]
      obtain r where "handlePaidScenario e pid w =
           (Inl (SupabaseInsertFailed msg),
            w\<lparr>trace := trace w @ [FetchGetPayment pid, DbInsert r,
                                  ConsoleError LogInsertFailed]\<rparr>)" ..
      with Some show ?thesis
        by (intro conjI exI [of _ "[FetchGetPayment pid, DbInsert r, ConsoleError LogInsertFailed]"])
          simp_all
    next
      case None
      let ?r = "\<lparr>transaction_key = pid, amount = pp_amount_total pd, status = ''Paid'',
               start_at = s, end_at = en, end_grace_at = g,
               next_schedule_at = Some nx, next_schedule_id = Some (random_uuid e)\<rparr>"
      let ?row = "PaymentRecord.extend ?r \<lparr>row_id = length (ledger w), created_at = db_clock e\<rparr>"
      note sk = scheduleNextPayment_skip [OF assms(2)]
      have a: "snd (handlePaidScenario e pid w) =
                 w\<lparr>ledger := ledger w @ [?row],
                   trace := trace w @ [FetchGetPayment pid, DbInsert ?r]\<rparr>"
        using snd_handlePaidScenario_reached(1) [OF assms(1) True win None refl refl, of w]
        by (simp add: sk)
      have b: "fst (handlePaidScenario e pid w) =
                 Inr \<lparr>success = True, message = Some WebhookProcessed,
                      payment = Some ?row, error = None, http_status = 200\<rparr>"
        using snd_handlePaidScenario_reached(2) [OF assms(1) True win None refl refl, of w]
        by (simp add: sk)
      show ?thesis
        using True win None
        by (intro conjI exI [of _ "[FetchGetPayment pid, DbInsert ?r]"]) (simp_all add: a b)
    qed
  qed
qed

section \<open>The cancellation flow, case by case\<close>

text \<open>
  Each way through \<^verbatim>\<open>handleCancelledScenario\<close>; the schedule step is summarised by the
  shape of the calls it adds.
\<close>

lemma ledger_cancelNextSchedule: "ledger (cancelNextSchedule e pd found w) = ledger w"
  by (simp add: cancelNextSchedule_def axios_get_schedules_def fetch_delete_schedules_def Let_def
      split: option.splits sum.splits prod.splits axios_result.splits fetch_result.splits)

lemma cancelNextSchedule_skip:
  assumes "\<not> truthy_opt (pp_billingKey pd)"
  shows "cancelNextSchedule e pd found w = w"
proof (cases "pp_billingKey pd")
  case None
  then show ?thesis by (simp add: cancelNextSchedule_def)
next
  case (Some bk)
  with assms have "\<not> truthy bk" by (simp add: truthy_opt_def)
  with Some show ?thesis
    by (cases "next_schedule_at found") (simp_all add: cancelNextSchedule_def)
qed

lemma cancelNextSchedule_shape:
  "\<exists>new. cancelNextSchedule e pd found w = w\<lparr>trace := trace w @ new\<rparr> \<and>
     (list_all is_console new
      \<or> (\<exists>f logs. new = AxiosGetSchedules f # logs \<and> list_all is_console logs
            \<and> (\<forall>dat its. get_schedules e f = AxiosResolved dat \<longrightarrow> items dat = Some its \<longrightarrow>
                   find (\<lambda>item. Some (si_paymentId item) = next_schedule_id found) its = None))
      \<or> (\<exists>f dat its target logs.
            new = AxiosGetSchedules f # FetchDeleteSchedules [si_id target] # logs
            \<and> list_all is_console logs
            \<and> get_schedules e f = AxiosResolved dat \<and> items dat = Some its
            \<and> find (\<lambda>item. Some (si_paymentId item) = next_schedule_id found) its = Some target))"
proof (cases "cancelNextSchedule e pd found w = w")
  case True
  then show ?thesis by (intro exI [of _ "[]"]) simp
next
  case False
  then obtain bk nextAt where bk: "pp_billingKey pd = Some bk"
    and na: "next_schedule_at found = Some nextAt"
    and tr: "truthy bk" "truthy_opt (next_schedule_id found)"
    by (auto simp: cancelNextSchedule_def split: option.splits if_splits)
  obtain fromDate untilDate where win: "scheduleSearchWindow (host_zone e) nextAt = (fromDate, untilDate)"
    by (cases "scheduleSearchWindow (host_zone e) nextAt")
  show ?thesis
  proof (cases "\<exists>a b. toISOString fromDate = Inr a \<and> toISOString untilDate = Inr b")
    case False
    then have "cancelNextSchedule e pd found w = w\<lparr>trace := trace w @ [ConsoleError LogScheduleLookupOrCancelError]\<rparr>"
      using bk na tr win
      by (auto simp: cancelNextSchedule_def emit_def split: sum.splits)
    then show ?thesis by (intro exI [of _ "[ConsoleError LogScheduleLookupOrCancelError]"]) simp
  next
    case True
    then obtain a b where iso: "toISOString fromDate = Inr a" "toISOString untilDate = Inr b"
      by blast
    let ?f = "\<lparr>sf_billingKey = bk, sf_from = a, sf_until = b\<rparr>"
    let ?w1 = "w\<lparr>trace := trace w @ [AxiosGetSchedules ?f]\<rparr>"
    show ?thesis
    proof (cases "get_schedules e ?f")
      case (AxiosRejected msg)
      then have "cancelNextSchedule e pd found w =
                   w\<lparr>trace := trace w @ [AxiosGetSchedules ?f, ConsoleError LogScheduleLookupOrCancelError]\<rparr>"
        using bk na tr win iso
        by (simp add: cancelNextSchedule_def emit_def axios_get_schedules_def)
      with AxiosRejected show ?thesis
        by (intro exI [of _ "[AxiosGetSchedules ?f, ConsoleError LogScheduleLookupOrCancelError]"]) simp
    next
      case (AxiosResolved dat)
      let ?its = "case items dat of None \<Rightarrow> [] | Some xs \<Rightarrow> xs"
      show ?thesis
      proof (cases "find (\<lambda>item. Some (si_paymentId item) = next_schedule_id found) ?its")
        case None
        then have "cancelNextSchedule e pd found w = w\<lparr>trace := trace w @ [AxiosGetSchedules ?f]\<rparr>"
          using bk na tr win iso AxiosResolved
          by (simp add: cancelNextSchedule_def emit_def axios_get_schedules_def Let_def)
        with AxiosResolved None show ?thesis
          by (intro exI [of _ "[AxiosGetSchedules ?f]"]) auto
      next
        case (Some target)
        then obtain its where its: "items dat = Some its"
          "find (\<lambda>item. Some (si_paymentId item) = next_schedule_id found) its = Some target"
          by (cases "items dat") simp_all
        have "\<exists>logs. list_all is_console logs \<and> cancelNextSchedule e pd found w =
                w\<lparr>trace := trace w @ AxiosGetSchedules ?f # FetchDeleteSchedules [si_id target] # logs\<rparr>"
        proof (cases "delete_schedules e [si_id target]")
          case (FetchRejected msg)
          then have "cancelNextSchedule e pd found w =
                w\<lparr>trace := trace w @ AxiosGetSchedules ?f # FetchDeleteSchedules [si_id target] #
                       [ConsoleError LogScheduleLookupOrCancelError]\<rparr>"
            using bk na tr win iso AxiosResolved its
            by (simp add: cancelNextSchedule_def emit_def axios_get_schedules_def Let_def
                fetch_delete_schedules_def)
          then show ?thesis
            by (intro exI [of _ "[ConsoleError LogScheduleLookupOrCancelError]"]) simp
        next
          case (FetchResponse st body)
          show ?thesis
          proof (cases "ok st")
            case True
            then have "cancelNextSchedule e pd found w =
                w\<lparr>trace := trace w @ AxiosGetSchedules ?f # FetchDeleteSchedules [si_id target] # []\<rparr>"
              using bk na tr win iso AxiosResolved its FetchResponse
              by (simp add: cancelNextSchedule_def emit_def axios_get_schedules_def Let_def
                  fetch_delete_schedules_def)
            then show ?thesis by (intro exI [of _ "[]"]) simp
          next
            case False
            then have "cancelNextSchedule e pd found w =
                w\<lparr>trace := trace w @ AxiosGetSchedules ?f # FetchDeleteSchedules [si_id target] #
                       [ConsoleError LogScheduleCancelFailed]\<rparr>"
              using bk na tr win iso AxiosResolved its FetchResponse
              by (simp add: cancelNextSchedule_def emit_def axios_get_schedules_def Let_def
                  fetch_delete_schedules_def)
            then show ?thesis
              by (intro exI [of _ "[ConsoleError LogScheduleCancelFailed]"]) simp
          qed
        qed
        then obtain logs where "list_all is_console logs"
          "cancelNextSchedule e pd found w =
             w\<lparr>trace := trace w @ AxiosGetSchedules ?f # FetchDeleteSchedules [si_id target] # logs\<rparr>"
          by blast
        with AxiosResolved its show ?thesis
          by (intro exI [of _ "AxiosGetSchedules ?f # FetchDeleteSchedules [si_id target] # logs"]) auto
      qed
    qed
  qed
qed

lemma cancelNextSchedule_trace:
  "\<exists>new. cancelNextSchedule e pd found w = w\<lparr>trace := trace w @ new\<rparr>
     \<and> filter is_ledger_insert new = [] \<and> filter is_ledger_select new = []
     \<and> filter is_create_schedule new = []"
proof -
  from cancelNextSchedule_shape [of e pd found w]
  obtain new where c: "cancelNextSchedule e pd found w = w\<lparr>trace := trace w @ new\<rparr>"
    and s: "list_all is_console new
      \<or> (\<exists>f logs. new = AxiosGetSchedules f # logs \<and> list_all is_console logs
            \<and> (\<forall>dat its. get_schedules e f = AxiosResolved dat \<longrightarrow> items dat = Some its \<longrightarrow>
                   find (\<lambda>item. Some (si_paymentId item) = next_schedule_id found) its = None))
      \<or> (\<exists>f dat its target logs.
            new = AxiosGetSchedules f # FetchDeleteSchedules [si_id target] # logs
            \<and> list_all is_console logs
            \<and> get_schedules e f = AxiosResolved dat \<and> items dat = Some its
            \<and> find (\<lambda>item. Some (si_paymentId item) = next_schedule_id found) its = Some target)"
    by (elim exE conjE)
  from s have "filter is_ledger_insert new = [] \<and> filter is_ledger_select new = []
     \<and> filter is_create_schedule new = []"
  proof (elim disjE exE conjE)
    assume "list_all is_console new"
    then show ?thesis
      by (simp add: console_no_ledger_insert console_no_ledger_select console_no_create_schedule)
  next
    fix f logs
    assume "new = AxiosGetSchedules f # logs" "list_all is_console logs"
    then show ?thesis
      by (simp add: console_no_ledger_insert console_no_ledger_select console_no_create_schedule)
  next
    fix f target logs
    assume "new = AxiosGetSchedules f # FetchDeleteSchedules [si_id target] # logs"
      "list_all is_console logs"
    then show ?thesis
      by (simp add: console_no_ledger_insert console_no_ledger_select console_no_create_schedule)
  qed
  with c show ?thesis by (intro exI [of _ new]) simp
qed

lemma handleCancelledScenario_rejected:
  assumes "get_payment e pid = FetchRejected msg"
  shows "handleCancelledScenario e pid w =
           (Inl (FetchFailed msg), w\<lparr>trace := trace w @ [FetchGetPayment pid]\<rparr>)"
  using assms by (simp add: handleCancelledScenario_def fetch_payment_def emit_def)

lemma handleCancelledScenario_not_ok:
  assumes "get_payment e pid = FetchResponse st body" and "\<not> ok st"
  shows "handleCancelledScenario e pid w =
           (Inl (PaymentLookupFailed st),
            w\<lparr>trace := trace w @ [FetchGetPayment pid, ConsoleError LogPaymentLookupFailed]\<rparr>)"
  using assms by (simp add: handleCancelledScenario_def fetch_payment_def emit_def)

lemma handleCancelledScenario_no_body:
  assumes "get_payment e pid = FetchResponse st None" and "ok st"
  shows "handleCancelledScenario e pid w =
           (Inl JsonSyntaxError, w\<lparr>trace := trace w @ [FetchGetPayment pid]\<rparr>)"
  using assms by (simp add: handleCancelledScenario_def fetch_payment_def emit_def)

lemma handleCancelledScenario_select_fault:
  assumes "get_payment e pid = FetchResponse st (Some pd)" and "ok st"
    and "select_fault e = Some msg"
  shows "\<exists>detail. handleCancelledScenario e pid w =
           (Inl (ExistingPaymentNotFound detail),
            w\<lparr>trace := trace w @ [FetchGetPayment pid,
                                  DbSelectLatestPaid (actualPaymentId pd pid),
                                  ConsoleError LogSelectFailed]\<rparr>)"
  using assms
  by (simp add: handleCancelledScenario_def fetch_payment_def Let_def emit_def
      supabase_select_latest_paid_def)

lemma handleCancelledScenario_missing:
  assumes "get_payment e pid = FetchResponse st (Some pd)" and "ok st"
    and "paid_rows (actualPaymentId pd pid) (ledger w) = []"
  shows "\<exists>detail. handleCancelledScenario e pid w =
           (Inl (ExistingPaymentNotFound detail),
            w\<lparr>trace := trace w @ [FetchGetPayment pid,
                                  DbSelectLatestPaid (actualPaymentId pd pid),
                                  ConsoleError LogSelectFailed]\<rparr>)"
  using assms
  by (cases "select_fault e")
    (simp_all add: handleCancelledScenario_def fetch_payment_def Let_def emit_def
      supabase_select_latest_paid_def)

lemma handleCancelledScenario_insert_fault:
  assumes "get_payment e pid = FetchResponse st (Some pd)" and "ok st"
    and "select_fault e = None"
    and "latest (paid_rows (actualPaymentId pd pid) (ledger w)) = Some found"
    and "insert_fault e = Some msg"
  shows "handleCancelledScenario e pid w =
           (Inl (SupabaseCancelInsertFailed msg),
            w\<lparr>trace := trace w @ [FetchGetPayment pid,
                                  DbSelectLatestPaid (actualPaymentId pd pid),
                                  DbInsert (cancelRecord found),
                                  ConsoleError LogCancelInsertFailed]\<rparr>)"
  using assms
  by (simp add: handleCancelledScenario_def fetch_payment_def Let_def emit_def
      supabase_select_found supabase_insert_fault)

lemma handleCancelledScenario_reached:
  assumes "get_payment e pid = FetchResponse st (Some pd)" and "ok st"
    and "select_fault e = None"
    and "latest (paid_rows (actualPaymentId pd pid) (ledger w)) = Some found"
    and "insert_fault e = None"
    and "row = PaymentRecord.extend (cancelRecord found)
                 \<lparr>row_id = length (ledger w), created_at = db_clock e\<rparr>"
  shows "handleCancelledScenario e pid w =
           (Inr \<lparr>success = True, message = Some CancelProcessed, payment = Some row,
                 error = None, http_status = 200\<rparr>,
            cancelNextSchedule e pd found
              (w\<lparr>ledger := ledger w @ [row],
                 trace := trace w @ [FetchGetPayment pid,
                                     DbSelectLatestPaid (actualPaymentId pd pid),
                                     DbInsert (cancelRecord found)]\<rparr>))"
  using assms
  by (simp add: handleCancelledScenario_def fetch_payment_def Let_def emit_def
      supabase_select_found supabase_insert_ok)

lemma handleCancelledScenario_cases:
  assumes "get_payment e pid = FetchResponse st (Some pd)" and "ok st"
  obtains
    (not_found) detail where
      "handleCancelledScenario e pid w =
         (Inl (ExistingPaymentNotFound detail),
          w\<lparr>trace := trace w @ [FetchGetPayment pid,
                                DbSelectLatestPaid (actualPaymentId pd pid),
                                ConsoleError LogSelectFailed]\<rparr>)"
      "select_fault e \<noteq> None \<or> paid_rows (actualPaymentId pd pid) (ledger w) = []"
  | (insert_failed) found msg where
      "select_fault e = None"
      "latest (paid_rows (actualPaymentId pd pid) (ledger w)) = Some found"
      "insert_fault e = Some msg"
      "handleCancelledScenario e pid w =
         (Inl (SupabaseCancelInsertFailed msg),
          w\<lparr>trace := trace w @ [FetchGetPayment pid,
                                DbSelectLatestPaid (actualPaymentId pd pid),
                                DbInsert (cancelRecord found),
                                ConsoleError LogCancelInsertFailed]\<rparr>)"
  | (reversed) found where
      "select_fault e = None"
      "latest (paid_rows (actualPaymentId pd pid) (ledger w)) = Some found"
      "insert_fault e = None"
proof (cases "select_fault e")
  case (Some msg)
  from handleCancelledScenario_select_fault [OF assms Some, of w] obtain detail where
    "handleCancelledScenario e pid w =
         (Inl (ExistingPaymentNotFound detail),
          w\<lparr>trace := trace w @ [FetchGetPayment pid,
                                DbSelectLatestPaid (actualPaymentId pd pid),
                                ConsoleError LogSelectFailed]\<rparr>)" ..
  with Some show ?thesis by (intro not_found) simp_all
next
  case None
  show ?thesis
  proof (cases "latest (paid_rows (actualPaymentId pd pid) (ledger w))")
    case n: None
    then have e: "paid_rows (actualPaymentId pd pid) (ledger w) = []"
      by (simp add: latest_None)
    from handleCancelledScenario_missing [OF assms e] obtain detail where
      "handleCancelledScenario e pid w =
         (Inl (ExistingPaymentNotFound detail),
          w\<lparr>trace := trace w @ [FetchGetPayment pid,
                                DbSelectLatestPaid (actualPaymentId pd pid),
                                ConsoleError LogSelectFailed]\<rparr>)" ..
    with e show ?thesis by (intro not_found) simp_all
  next
    case (Some found)
    show ?thesis
    proof (cases "insert_fault e")
      case n: None
      with None Some show ?thesis by (intro reversed)
    next
      case s: (Some msg)
      from handleCancelledScenario_insert_fault [OF assms None Some s]
      show ?thesis using None Some s by (intro insert_failed)
    qed
  qed
qed

lemma cancelled_without_billing_key:
  assumes "get_payment e pid = FetchResponse st (Some pd)"
    and "\<not> truthy_opt (pp_billingKey pd)"
  shows "(\<exists>new. trace (snd (handleCancelledScenario e pid w)) = trace w @ new
            \<and> filter is_schedule_call new = [])
       \<and> ((\<exists>resp. fst (handleCancelledScenario e pid w) = Inr resp \<and> success resp)
            \<longleftrightarrow> (ok st \<and> select_fault e = None
                 \<and> (\<exists>p\<in>set (ledger w). transaction_key p = actualPaymentId pd pid
                       \<and> status p = ''Paid'')
                 \<and> insert_fault e = None))"
proof (cases "ok st")
  case False
  from handleCancelledScenario_not_ok [OF assms(1) False, of w] False show ?thesis
    by (intro conjI exI [of _ "[FetchGetPayment pid, ConsoleError LogPaymentLookupFailed]"])
      simp_all
next
  case True
  let ?k = "actualPaymentId pd pid"
  from assms(1) True show ?thesis
  proof (cases rule: handleCancelledScenario_cases [where w = w])
    case (not_found detail)
    have "\<not> (select_fault e = None
                 \<and> (\<exists>p\<in>set (ledger w). transaction_key p = ?k \<and> status p = ''Paid''))"
      using not_found(2) by (auto simp: paid_rows_def filter_empty_conv)
    with not_found(1) show ?thesis
      by (intro conjI exI [of _ "[FetchGetPayment pid, DbSelectLatestPaid ?k,
                                  ConsoleError LogSelectFailed]"]) auto
  next
    case (insert_failed found msg)
    then show ?thesis
      by (intro conjI exI [of _ "[FetchGetPayment pid, DbSelectLatestPaid ?k,
                                  DbInsert (cancelRecord found),
                                  ConsoleError LogCancelInsertFailed]"]) simp_all
  next
    case (reversed found)
    let ?row = "PaymentRecord.extend (cancelRecord found)
                  \<lparr>row_id = length (ledger w), created_at = db_clock e\<rparr>"
    let ?pre = "[FetchGetPayment pid, DbSelectLatestPaid ?k, DbInsert (cancelRecord found)]"
    let ?w3 = "w\<lparr>ledger := ledger w @ [?row], trace := trace w @ ?pre\<rparr>"
    have h: "handleCancelledScenario e pid w =
             (Inr \<lparr>success = True, message = Some CancelProcessed, payment = Some ?row,
                   error = None, http_status = 200\<rparr>, ?w3)"
      using handleCancelledScenario_reached [OF assms(1) True reversed refl]
      by (simp add: cancelNextSchedule_skip [OF assms(2)])
    have ex: "\<exists>p\<in>set (ledger w). transaction_key p = ?k \<and> status p = ''Paid''"
      using latest_paid_row [OF reversed(2)] by blast
    show ?thesis
      using True reversed(1,3) ex
      by (intro conjI exI [of _ ?pre]) (simp_all add: h)
  qed
qed

section \<open>The dispatcher and the flows\<close>

lemma POST_Paid:
  assumes "payload_status ev = ''Paid''"
  shows "POST e (Some ev) w =
           (case handlePaidScenario e (payment_id ev) w of
              (Inr resp, w') \<Rightarrow> (resp, w')
            | (Inl x, w') \<Rightarrow>
                (\<lparr>success = False, message = None, payment = None, error = Some x,
                  http_status = 500\<rparr>, emit (ConsoleError LogWebhookError) w'))"
  using assms by (simp add: POST_def split: prod.splits sum.splits)

lemma POST_Cancelled:
  assumes "payload_status ev = ''Cancelled''"
  shows "POST e (Some ev) w =
           (case handleCancelledScenario e (payment_id ev) w of
              (Inr resp, w') \<Rightarrow> (resp, w')
            | (Inl x, w') \<Rightarrow>
                (\<lparr>success = False, message = None, payment = None, error = Some x,
                  http_status = 500\<rparr>, emit (ConsoleError LogWebhookError) w'))"
  using assms by (simp add: POST_def split: prod.splits sum.splits)

lemma POST_Paid_success:
  assumes "payload_status ev = ''Paid''" and "success (fst (POST e (Some ev) w))"
  shows "fst (handlePaidScenario e (payment_id ev) w) = Inr (fst (POST e (Some ev) w))
       \<and> snd (POST e (Some ev) w) = snd (handlePaidScenario e (payment_id ev) w)"
  using assms(2) unfolding POST_Paid [OF assms(1)]
  by (cases "handlePaidScenario e (payment_id ev) w") (auto split: sum.splits)

section \<open>The sample deliveries, evaluated\<close>

lemmas sample_defs =
  demo_env_def pay_1_detail_def pay_1_row_def paid_world_def empty_world_def paid_event_def
  cancelled_event_def one_time_env_def offline_schedule_env_def fixed_zone_def

text \<open>The sample number is 13/32; times 60 it is 24.375, that is minute 24.\<close>

lemma sample_minute: "\<lfloor>195 / 8 :: rat\<rfloor> = 24"
  by (simp add: floor_eq_iff)

lemmas date_defs =
  paidWindow_def scheduleSearchWindow_def toISOString_def TimeClip_def addDate_def setHours_def
  LocalTime_def UTC_def MakeDate_def MakeTime_def Day_def TimeWithinDay_def msPerDay_def
  msPerHour_def msPerMinute_def msPerSecond_def times60_def round_half_even_def
  excess_bits_small sample_minute

lemmas flow_defs =
  POST_def handlePaidScenario_def handleCancelledScenario_def scheduleNextPayment_def
  cancelNextSchedule_def cancelRecord_def actualPaymentId_def fetch_payment_def
  fetch_post_schedule_def axios_get_schedules_def fetch_delete_schedules_def
  supabase_insert_def supabase_select_latest_paid_def paid_rows_def emit_def ok_def truthy_def
  truthy_opt_def PaymentRecord.extend_def Let_def

lemma paidWindow_demo_env:
  "paidWindow demo_env = Inr (1704067200000, 1706659200000, 1706745600000, 1706783040000)"
  by (simp add: sample_defs date_defs Let_def)

lemma paidWindow_one_time_env:
  "paidWindow one_time_env = Inr (1704067200000, 1706659200000, 1706745600000, 1706783040000)"
  by (simp add: sample_defs date_defs Let_def)

lemma demo_paid_delivery:
  "POST demo_env (Some paid_event) w =
     (\<lparr>success = True, message = Some WebhookProcessed,
       payment = Some (pay_1_row\<lparr>row_id := length (ledger w)\<rparr>),
       error = None, http_status = 200\<rparr>,
      w\<lparr>ledger := ledger w @ [pay_1_row\<lparr>row_id := length (ledger w)\<rparr>],
        trace := trace w @
          [FetchGetPayment ''pay_1'',
           DbInsert \<lparr>transaction_key = ''pay_1'', amount = 9900, status = ''Paid'',
             start_at = 1704067200000, end_at = 1706659200000, end_grace_at = 1706745600000,
             next_schedule_at = Some 1706783040000, next_schedule_id = Some ''sched_1''\<rparr>,
           FetchPostSchedule \<lparr>sr_scheduleId = ''sched_1'', sr_billingKey = ''bk_1'',
             sr_orderName = ''monthly'', sr_customer_id = ''cus_1'', sr_amount_total = 9900,
             sr_currency = ''KRW'', sr_timeToPay = 1706783040000\<rparr>]\<rparr>)"
  by (simp add: sample_defs date_defs flow_defs)

lemma demo_cancellation:
  "handleCancelledScenario demo_env ''pay_1'' paid_world =
     (Inr \<lparr>success = True, message = Some CancelProcessed,
           payment = Some \<lparr>transaction_key = ''pay_1'', amount = - 9900, status = ''Cancel'',
             start_at = 1704067200000, end_at = 1706659200000, end_grace_at = 1706745600000,
             next_schedule_at = Some 1706783040000, next_schedule_id = Some ''sched_1'',
             row_id = 1, created_at = 1704067200500\<rparr>,
           error = None, http_status = 200\<rparr>,
      \<lparr>ledger = [pay_1_row,
                 \<lparr>transaction_key = ''pay_1'', amount = - 9900, status = ''Cancel'',
                  start_at = 1704067200000, end_at = 1706659200000,
                  end_grace_at = 1706745600000,
                  next_schedule_at = Some 1706783040000, next_schedule_id = Some ''sched_1'',
                  row_id = 1, created_at = 1704067200500\<rparr>],
       trace = [FetchGetPayment ''pay_1'', DbSelectLatestPaid ''pay_1'',
                DbInsert \<lparr>transaction_key = ''pay_1'', amount = - 9900, status = ''Cancel'',
                  start_at = 1704067200000, end_at = 1706659200000,
                  end_grace_at = 1706745600000,
                  next_schedule_at = Some 1706783040000,
                  next_schedule_id = Some ''sched_1''\<rparr>,
                AxiosGetSchedules \<lparr>sf_billingKey = ''bk_1'', sf_from = 1706696640000,
                  sf_until = 1706869440000\<rparr>,
                FetchDeleteSchedules [''sch_A'']]\<rparr>)"
  by (simp add: sample_defs date_defs flow_defs)

section \<open>The claims\<close>

subsection \<open>C1: the paid entry and its window\<close>




subsection \<open>C2: the reversal row\<close>

text \<open>
  C2. A cancelled event whose payment lookup succeeds, whose resolved key has a paid
  row in the ledger, and whose ledger calls do not fail: the flow finds a paid row of
  that key of greatest \<open>created_at\<close>, appends exactly one row (one insert call, made
  with the reversal of the found row), and returns the stored row in a success response.
  The row has the found row's transaction key, the negated amount, status \<open>Cancel\<close>, and
  the found row's \<open>start_at\<close>, \<open>end_at\<close>, \<open>end_grace_at\<close>, \<open>next_schedule_at\<close> and
  \<open>next_schedule_id\<close>. This holds whatever the schedule side answers afterwards.
\<close>

theorem cancelled_inserts_reversal:
  assumes "get_payment e pid = FetchResponse st (Some pd)" and "ok st"
    and "select_fault e = None" and "insert_fault e = None"
    and "p \<in> set (ledger w)" and "transaction_key p = actualPaymentId pd pid"
    and "status p = ''Paid''"
  shows "\<exists>found row w'.
           handleCancelledScenario e pid w =
             (Inr \<lparr>success = True, message = Some CancelProcessed, payment = Some row,
                   error = None, http_status = 200\<rparr>, w')
         \<and> found \<in> set (ledger w)
         \<and> transaction_key found = actualPaymentId pd pid \<and> status found = ''Paid''
         \<and> (\<forall>q\<in>set (ledger w).
               transaction_key q = actualPaymentId pd pid \<and> status q = ''Paid''
               \<longrightarrow> created_at q \<le> created_at found)
         \<and> ledger w' = ledger w @ [row]
         \<and> filter is_ledger_insert (trace w') =
             filter is_ledger_insert (trace w) @ [DbInsert (cancelRecord found)]
         \<and> transaction_key row = transaction_key found
         \<and> amount row = - amount found
         \<and> status row = ''Cancel''
         \<and> start_at row = start_at found
         \<and> end_at row = end_at found
         \<and> end_grace_at row = end_grace_at found
         \<and> next_schedule_at row = next_schedule_at found
         \<and> next_schedule_id row = next_schedule_id found"
proof -
  let ?k = "actualPaymentId pd pid"
  obtain found where f: "latest (paid_rows ?k (ledger w)) = Some found"
    using latest_paid_exists [OF assms(5-7)] by blast
  let ?row = "PaymentRecord.extend (cancelRecord found)
                \<lparr>row_id = length (ledger w), created_at = db_clock e\<rparr>"
  let ?w3 = "w\<lparr>ledger := ledger w @ [?row],
               trace := trace w @ [FetchGetPayment pid, DbSelectLatestPaid ?k,
                                   DbInsert (cancelRecord found)]\<rparr>"
  have h: "handleCancelledScenario e pid w =
             (Inr \<lparr>success = True, message = Some CancelProcessed, payment = Some ?row,
                   error = None, http_status = 200\<rparr>, cancelNextSchedule e pd found ?w3)"
    using assms(1-3) f assms(4) refl by (rule handleCancelledScenario_reached)
  obtain new where n: "cancelNextSchedule e pd found ?w3 = ?w3\<lparr>trace := trace ?w3 @ new\<rparr>"
    "filter is_ledger_insert new = []"
    using cancelNextSchedule_trace [of e pd found ?w3] by (elim exE conjE)
  have led: "ledger (cancelNextSchedule e pd found ?w3) = ledger w @ [?row]"
    by (simp add: ledger_cancelNextSchedule)
  have tr: "filter is_ledger_insert (trace (cancelNextSchedule e pd found ?w3)) =
              filter is_ledger_insert (trace w) @ [DbInsert (cancelRecord found)]"
    using n by simp
  have fields: "transaction_key ?row = transaction_key found \<and> amount ?row = - amount found
      \<and> status ?row = ''Cancel'' \<and> start_at ?row = start_at found \<and> end_at ?row = end_at found
      \<and> end_grace_at ?row = end_grace_at found
      \<and> next_schedule_at ?row = next_schedule_at found
      \<and> next_schedule_id ?row = next_schedule_id found"
    by (simp add: cancelRecord_def PaymentRecord.extend_def)
  show ?thesis
    apply (rule exI [of _ found], rule exI [of _ ?row],
        rule exI [of _ "cancelNextSchedule e pd found ?w3"])
    using h latest_paid_row [OF f] led tr fields by simp
qed

text \<open>
  The sample cancellation after the sample payment: the ledger holds the paid row and
  its reversal of amount -9900 with the same window.
\<close>

theorem cancelled_inserts_reversal_witness:
  "get_payment demo_env ''pay_1'' = FetchResponse 200 (Some pay_1_detail) \<and> ok 200
   \<and> select_fault demo_env = None \<and> insert_fault demo_env = None
   \<and> pay_1_row \<in> set (ledger paid_world)
   \<and> transaction_key pay_1_row = actualPaymentId pay_1_detail ''pay_1''
   \<and> status pay_1_row = ''Paid''
   \<and> (\<exists>row w'. handleCancelledScenario demo_env ''pay_1'' paid_world =
          (Inr \<lparr>success = True, message = Some CancelProcessed, payment = Some row,
                error = None, http_status = 200\<rparr>, w')
        \<and> ledger w' = [pay_1_row, row]
        \<and> transaction_key row = ''pay_1'' \<and> amount row = - 9900 \<and> status row = ''Cancel''
        \<and> start_at row = 1704067200000 \<and> end_at row = 1706659200000
        \<and> end_grace_at row = 1706745600000
        \<and> next_schedule_at row = Some 1706783040000
        \<and> next_schedule_id row = Some ''sched_1'')"
proof -
  have h1: "get_payment demo_env ''pay_1'' = FetchResponse 200 (Some pay_1_detail)"
    by (simp add: demo_env_def)
  have h2: "ok 200" by (simp add: ok_def)
  have h3: "select_fault demo_env = None" by (simp add: demo_env_def)
  have h4: "insert_fault demo_env = None" by (simp add: demo_env_def)
  have h5: "pay_1_row \<in> set (ledger paid_world)" by (simp add: paid_world_def)
  have h6: "transaction_key pay_1_row = actualPaymentId pay_1_detail ''pay_1''"
    by (simp add: pay_1_row_def actualPaymentId_def pay_1_detail_def truthy_def)
  have h7: "status pay_1_row = ''Paid''" by (simp add: pay_1_row_def)
  from cancelled_inserts_reversal [OF h1 h2 h3 h4 h5 h6 h7]
  obtain found row w' where
    r: "handleCancelledScenario demo_env ''pay_1'' paid_world =
          (Inr \<lparr>success = True, message = Some CancelProcessed, payment = Some row,
                error = None, http_status = 200\<rparr>, w')"
      "found \<in> set (ledger paid_world)"
      "ledger w' = ledger paid_world @ [row]"
      "transaction_key row = transaction_key found" "amount row = - amount found"
      "status row = ''Cancel''" "start_at row = start_at found" "end_at row = end_at found"
      "end_grace_at row = end_grace_at found"
      "next_schedule_at row = next_schedule_at found"
      "next_schedule_id row = next_schedule_id found"
    by (elim exE conjE)
  have f: "found = pay_1_row" using r(2) by (simp add: paid_world_def)
  have "handleCancelledScenario demo_env ''pay_1'' paid_world =
          (Inr \<lparr>success = True, message = Some CancelProcessed, payment = Some row,
                error = None, http_status = 200\<rparr>, w')
        \<and> ledger w' = [pay_1_row, row]
        \<and> transaction_key row = ''pay_1'' \<and> amount row = - 9900 \<and> status row = ''Cancel''
        \<and> start_at row = 1704067200000 \<and> end_at row = 1706659200000
        \<and> end_grace_at row = 1706745600000
        \<and> next_schedule_at row = Some 1706783040000
        \<and> next_schedule_id row = Some ''sched_1''"
    using r(1) r(3-11) unfolding f by (simp add: paid_world_def pay_1_row_def)
  then have "\<exists>row w'. handleCancelledScenario demo_env ''pay_1'' paid_world =
          (Inr \<lparr>success = True, message = Some CancelProcessed, payment = Some row,
                error = None, http_status = 200\<rparr>, w')
        \<and> ledger w' = [pay_1_row, row]
        \<and> transaction_key row = ''pay_1'' \<and> amount row = - 9900 \<and> status row = ''Cancel''
        \<and> start_at row = 1704067200000 \<and> end_at row = 1706659200000
        \<and> end_grace_at row = 1706745600000
        \<and> next_schedule_at row = Some 1706783040000
        \<and> next_schedule_id row = Some ''sched_1''"
    by (intro exI [of _ row] exI [of _ w'])
  with h1 h2 h3 h4 h5 h6 h7 show ?thesis by simp
qed

subsection \<open>C3: cancellation without a paid row\<close>

text \<open>
  C3. A cancelled event whose payment lookup succeeds and whose resolved key has no row
  of status \<open>Paid\<close> in the ledger: the dispatcher answers with a failure response of
  status 500 carrying the not-found error, the ledger is unchanged, and the only calls
  made are the payment lookup and the ledger select; no insert is attempted.
\<close>

theorem cancelled_without_paid_row_fails:
  assumes "get_payment e (payment_id ev) = FetchResponse st (Some pd)" and "ok st"
    and "payload_status ev = ''Cancelled''"
    and "\<forall>p\<in>set (ledger w).
           \<not> (transaction_key p = actualPaymentId pd (payment_id ev) \<and> status p = ''Paid'')"
  shows "\<exists>detail. POST e (Some ev) w =
           (\<lparr>success = False, message = None, payment = None,
             error = Some (ExistingPaymentNotFound detail), http_status = 500\<rparr>,
            w\<lparr>trace := trace w @ [FetchGetPayment (payment_id ev),
                                  DbSelectLatestPaid (actualPaymentId pd (payment_id ev)),
                                  ConsoleError LogSelectFailed,
                                  ConsoleError LogWebhookError]\<rparr>)"
proof -
  have "paid_rows (actualPaymentId pd (payment_id ev)) (ledger w) = []"
    using assms(4) by (simp add: paid_rows_def filter_empty_conv)
  from handleCancelledScenario_missing [OF assms(1,2) this]
  obtain detail where "handleCancelledScenario e (payment_id ev) w =
           (Inl (ExistingPaymentNotFound detail),
            w\<lparr>trace := trace w @ [FetchGetPayment (payment_id ev),
                                  DbSelectLatestPaid (actualPaymentId pd (payment_id ev)),
                                  ConsoleError LogSelectFailed]\<rparr>)" ..
  then show ?thesis
    by (intro exI [of _ detail]) (simp add: POST_Cancelled [OF assms(3)] emit_def)
qed

text \<open>
  The sample cancellation on an empty ledger.
\<close>

theorem cancelled_without_paid_row_fails_witness:
  "get_payment demo_env (payment_id cancelled_event) = FetchResponse 200 (Some pay_1_detail)
   \<and> ok 200 \<and> payload_status cancelled_event = ''Cancelled''
   \<and> ledger empty_world = []
   \<and> success (fst (POST demo_env (Some cancelled_event) empty_world)) = False
   \<and> http_status (fst (POST demo_env (Some cancelled_event) empty_world)) = 500
   \<and> ledger (snd (POST demo_env (Some cancelled_event) empty_world)) = []
   \<and> trace (snd (POST demo_env (Some cancelled_event) empty_world)) =
       [FetchGetPayment ''pay_1'', DbSelectLatestPaid ''pay_1'',
        ConsoleError LogSelectFailed, ConsoleError LogWebhookError]"
proof -
  have h1: "get_payment demo_env (payment_id cancelled_event) =
              FetchResponse 200 (Some pay_1_detail)"
    by (simp add: demo_env_def)
  have h2: "ok 200" by (simp add: ok_def)
  have h3: "payload_status cancelled_event = ''Cancelled''" by (simp add: cancelled_event_def)
  have h4: "\<forall>p\<in>set (ledger empty_world).
           \<not> (transaction_key p = actualPaymentId pay_1_detail (payment_id cancelled_event)
               \<and> status p = ''Paid'')"
    by (simp add: empty_world_def)
  from cancelled_without_paid_row_fails [OF h1 h2 h3 h4]
  obtain detail where "POST demo_env (Some cancelled_event) empty_world =
           (\<lparr>success = False, message = None, payment = None,
             error = Some (ExistingPaymentNotFound detail), http_status = 500\<rparr>,
            empty_world\<lparr>trace := trace empty_world @
                 [FetchGetPayment (payment_id cancelled_event),
                  DbSelectLatestPaid (actualPaymentId pay_1_detail (payment_id cancelled_event)),
                  ConsoleError LogSelectFailed,
                  ConsoleError LogWebhookError]\<rparr>)" ..
  then show ?thesis
    using h1 h2 h3
    by (simp add: empty_world_def cancelled_event_def actualPaymentId_def pay_1_detail_def
        truthy_def)
qed

subsection \<open>C4: failures of the schedule side\<close>

text \<open>
  C4 does not hold of the paid flow. When the \<^verbatim>\<open>fetch\<close> that registers the next schedule
  rejects (the request gets no answer), the exception leaves \<^verbatim>\<open>handlePaidScenario\<close>, which
  has no \<^verbatim>\<open>try\<close> around it, and the dispatcher answers with a failure response of status
  500, after the paid row has been inserted. The run in which the registration is
  answered reports success. The cancellation flow wraps its schedule calls in a
  \<^verbatim>\<open>try\<close>, and the comment in the paid flow says that a failed registration is to be
  logged only.
\<close>

theorem paid_schedule_rejection_surfaces:
  "POST offline_schedule_env (Some paid_event) empty_world =
     (\<lparr>success = False, message = None, payment = None,
       error = Some (FetchFailed ''fetch failed''), http_status = 500\<rparr>,
      \<lparr>ledger = [pay_1_row],
       trace =
         [FetchGetPayment ''pay_1'',
          DbInsert \<lparr>transaction_key = ''pay_1'', amount = 9900, status = ''Paid'',
            start_at = 1704067200000, end_at = 1706659200000, end_grace_at = 1706745600000,
            next_schedule_at = Some 1706783040000, next_schedule_id = Some ''sched_1''\<rparr>,
          FetchPostSchedule \<lparr>sr_scheduleId = ''sched_1'', sr_billingKey = ''bk_1'',
            sr_orderName = ''monthly'', sr_customer_id = ''cus_1'', sr_amount_total = 9900,
            sr_currency = ''KRW'', sr_timeToPay = 1706783040000\<rparr>,
          ConsoleError LogWebhookError]\<rparr>)
   \<and> success (fst (POST demo_env (Some paid_event) empty_world))"
  by (simp add: sample_defs date_defs flow_defs)

text \<open>
  What does hold of the schedule side. In the paid flow, a registration that is
  answered, with whatever status, leaves the response a success. In the cancellation
  flow the response and the ledger do not depend on what the schedule query and the
  schedule cancellation do.
\<close>

lemma paid_schedule_answer_swallowed:
  assumes "get_payment e pid = FetchResponse st (Some pd)" and "ok st"
    and "paidWindow e = Inr (s, en, g, nx)"
    and "insert_fault e = None"
    and "\<And>rq. \<exists>st' body. post_schedule e rq = FetchResponse st' body"
  shows "\<exists>row. fst (handlePaidScenario e pid w) =
           Inr \<lparr>success = True, message = Some WebhookProcessed, payment = Some row,
                error = None, http_status = 200\<rparr>"
  using snd_handlePaidScenario_reached(2) [OF assms(1-4) refl refl, of w]
    scheduleNextPayment_answered [of e, OF assms(5)]
  by simp

lemma cancelled_outcome_ignores_schedule_side:
  "fst (handleCancelledScenario (e\<lparr>get_schedules := gs, delete_schedules := ds\<rparr>) pid w) =
     fst (handleCancelledScenario e pid w)
   \<and> ledger (snd (handleCancelledScenario (e\<lparr>get_schedules := gs, delete_schedules := ds\<rparr>)
                    pid w)) =
     ledger (snd (handleCancelledScenario e pid w))"
  by (simp add: handleCancelledScenario_def fetch_payment_def supabase_select_latest_paid_def
      supabase_insert_def Let_def ledger_cancelNextSchedule
      split: fetch_result.splits option.splits)

subsection \<open>C5: replaying a paid event\<close>

text \<open>
  C5. Whenever the same paid event is handled twice, one delivery after the other, and
  both deliveries report success, the ledger has gained two rows, one per delivery, both
  with the event's payment id as transaction key and status \<open>Paid\<close>; the rows are
  distinct (they differ in their primary key), each is the row its response returns,
  and two insert calls were made. Nothing in the flow looks for an earlier row.
\<close>

theorem paid_replay_inserts_twice:
  assumes "payload_status ev = ''Paid''"
    and "success (fst (POST e1 (Some ev) w0))"
    and "success (fst (POST e2 (Some ev) (snd (POST e1 (Some ev) w0))))"
  shows "\<exists>row1 row2.
           ledger (snd (POST e1 (Some ev) w0)) = ledger w0 @ [row1]
         \<and> ledger (snd (POST e2 (Some ev) (snd (POST e1 (Some ev) w0)))) =
             ledger w0 @ [row1, row2]
         \<and> row1 \<noteq> row2
         \<and> payment (fst (POST e1 (Some ev) w0)) = Some row1
         \<and> payment (fst (POST e2 (Some ev) (snd (POST e1 (Some ev) w0)))) = Some row2
         \<and> transaction_key row1 = payment_id ev \<and> status row1 = ''Paid''
         \<and> transaction_key row2 = payment_id ev \<and> status row2 = ''Paid''
         \<and> length (filter is_ledger_insert
                     (trace (snd (POST e2 (Some ev) (snd (POST e1 (Some ev) w0)))))) =
             length (filter is_ledger_insert (trace w0)) + 2"
proof -
  let ?w1 = "snd (POST e1 (Some ev) w0)"
  let ?w2 = "snd (POST e2 (Some ev) ?w1)"
  note a = POST_Paid_success [OF assms(1,2)]
  note b = POST_Paid_success [OF assms(1,3)]
  from paid_success_appends_row [OF a [THEN conjunct1]]
  obtain row1 where r1: "ledger ?w1 = ledger w0 @ [row1]" "row_id row1 = length (ledger w0)"
    "transaction_key row1 = payment_id ev" "status row1 = ''Paid''"
    "payment (fst (POST e1 (Some ev) w0)) = Some row1"
    "length (filter is_ledger_insert (trace ?w1)) =
       length (filter is_ledger_insert (trace w0)) + 1"
    unfolding a [THEN conjunct2, symmetric] by (elim exE conjE)
  from paid_success_appends_row [OF b [THEN conjunct1]]
  obtain row2 where r2: "ledger ?w2 = ledger ?w1 @ [row2]" "row_id row2 = length (ledger ?w1)"
    "transaction_key row2 = payment_id ev" "status row2 = ''Paid''"
    "payment (fst (POST e2 (Some ev) ?w1)) = Some row2"
    "length (filter is_ledger_insert (trace ?w2)) =
       length (filter is_ledger_insert (trace ?w1)) + 1"
    unfolding b [THEN conjunct2, symmetric] by (elim exE conjE)
  have "row_id row1 \<noteq> row_id row2" using r1(1,2) r2(2) by simp
  then have ne: "row1 \<noteq> row2" by auto
  show ?thesis
    apply (rule exI [of _ row1], rule exI [of _ row2])
    using r1 r2 ne by simp
qed

text \<open>
  The sample payment delivered twice to an empty ledger.
\<close>

theorem paid_replay_inserts_twice_witness:
  "payload_status paid_event = ''Paid''
   \<and> success (fst (POST demo_env (Some paid_event) empty_world))
   \<and> success (fst (POST demo_env (Some paid_event)
                      (snd (POST demo_env (Some paid_event) empty_world))))
   \<and> ledger (snd (POST demo_env (Some paid_event)
                      (snd (POST demo_env (Some paid_event) empty_world)))) =
       [pay_1_row, pay_1_row\<lparr>row_id := 1\<rparr>]
   \<and> pay_1_row \<noteq> pay_1_row\<lparr>row_id := 1\<rparr>
   \<and> length (filter is_ledger_insert
               (trace (snd (POST demo_env (Some paid_event)
                              (snd (POST demo_env (Some paid_event) empty_world)))))) = 2"
proof -
  have h1: "payload_status paid_event = ''Paid''" by (simp add: paid_event_def)
  have h2: "success (fst (POST demo_env (Some paid_event) empty_world))"
    by (simp add: demo_paid_delivery)
  have h3: "success (fst (POST demo_env (Some paid_event)
                      (snd (POST demo_env (Some paid_event) empty_world))))"
    by (simp add: demo_paid_delivery)
  from paid_replay_inserts_twice [OF h1 h2 h3]
  obtain row1 row2 where r: "row1 \<noteq> row2"
    "ledger (snd (POST demo_env (Some paid_event)
        (snd (POST demo_env (Some paid_event) empty_world)))) = ledger empty_world @ [row1, row2]"
    "length (filter is_ledger_insert
               (trace (snd (POST demo_env (Some paid_event)
                              (snd (POST demo_env (Some paid_event) empty_world)))))) =
       length (filter is_ledger_insert (trace empty_world)) + 2"
    by (elim exE conjE)
  have l: "ledger (snd (POST demo_env (Some paid_event)
                      (snd (POST demo_env (Some paid_event) empty_world)))) =
       [pay_1_row, pay_1_row\<lparr>row_id := 1\<rparr>]"
    by (simp add: demo_paid_delivery empty_world_def pay_1_row_def)
  have rows: "row1 = pay_1_row \<and> row2 = pay_1_row\<lparr>row_id := 1\<rparr>"
    using r(2) unfolding l by (simp add: empty_world_def)
  have ne: "pay_1_row \<noteq> pay_1_row\<lparr>row_id := 1\<rparr>"
    using r(1) rows by simp
  have n: "length (filter is_ledger_insert
               (trace (snd (POST demo_env (Some paid_event)
                              (snd (POST demo_env (Some paid_event) empty_world)))))) = 2"
    using r(3) by (simp add: empty_world_def)
  from h1 h2 h3 l ne n show ?thesis by simp
qed

subsection \<open>C6: no billing key, no schedule call\<close>

text \<open>
  C6, as the code has it. When the gateway's payment detail has no billing key (absent,
  or the empty string, which \<^verbatim>\<open>if (paymentData.billingKey)\<close> reads as false), the paid
  flow records no call that registers a schedule and the cancellation flow records no
  call that queries or cancels schedules. Neither flow succeeds for that reason alone:
  each succeeds exactly when its own fatal steps do, the paid flow when the lookup is
  ok, the dates are valid and the insert does not fail; the cancellation flow when the
  lookup is ok, the select does not fail, a paid row of the resolved key exists and the
  insert does not fail.
\<close>

theorem no_billing_key_no_schedule_calls:
  assumes "get_payment e pid = FetchResponse st (Some pd)"
    and "\<not> truthy_opt (pp_billingKey pd)"
  shows "(\<exists>new. trace (snd (handlePaidScenario e pid w)) = trace w @ new
            \<and> filter is_schedule_call new = [])
       \<and> (\<exists>new. trace (snd (handleCancelledScenario e pid w)) = trace w @ new
            \<and> filter is_schedule_call new = [])
       \<and> ((\<exists>resp. fst (handlePaidScenario e pid w) = Inr resp \<and> success resp)
            \<longleftrightarrow> (ok st \<and> (\<exists>win. paidWindow e = Inr win) \<and> insert_fault e = None))
       \<and> ((\<exists>resp. fst (handleCancelledScenario e pid w) = Inr resp \<and> success resp)
            \<longleftrightarrow> (ok st \<and> select_fault e = None
                 \<and> (\<exists>p\<in>set (ledger w). transaction_key p = actualPaymentId pd pid
                       \<and> status p = ''Paid'')
                 \<and> insert_fault e = None))"
  using paid_without_billing_key [OF assms, of w] cancelled_without_billing_key [OF assms, of w]
  by blast

text \<open>
  The one-time payment: paid on an empty ledger, cancelled on the ledger the sample
  payment leaves.
\<close>

theorem no_billing_key_no_schedule_calls_witness:
  "get_payment one_time_env ''pay_1'' =
     FetchResponse 200 (Some (pay_1_detail\<lparr>pp_billingKey := None\<rparr>))
   \<and> pp_billingKey (pay_1_detail\<lparr>pp_billingKey := None\<rparr>) = None
   \<and> \<not> truthy_opt (pp_billingKey (pay_1_detail\<lparr>pp_billingKey := None\<rparr>))
   \<and> filter is_schedule_call (trace (snd (handlePaidScenario one_time_env ''pay_1'' empty_world))) = []
   \<and> (\<exists>resp. fst (handlePaidScenario one_time_env ''pay_1'' empty_world) = Inr resp
         \<and> success resp)
   \<and> filter is_schedule_call
       (trace (snd (handleCancelledScenario one_time_env ''pay_1'' paid_world))) = []
   \<and> (\<exists>resp. fst (handleCancelledScenario one_time_env ''pay_1'' paid_world) = Inr resp
         \<and> success resp)"
proof -
  let ?pd = "pay_1_detail\<lparr>pp_billingKey := None\<rparr>"
  have h1: "get_payment one_time_env ''pay_1'' = FetchResponse 200 (Some ?pd)"
    by (simp add: one_time_env_def)
  have h0: "pp_billingKey ?pd = None" by simp
  have h2: "\<not> truthy_opt (pp_billingKey ?pd)" by (simp add: truthy_opt_def)
  have ok: "ok 200" by (simp add: ok_def)
  have ins: "insert_fault one_time_env = None" by (simp add: one_time_env_def demo_env_def)
  have sel: "select_fault one_time_env = None" by (simp add: one_time_env_def demo_env_def)
  have row: "\<exists>p\<in>set (ledger paid_world).
               transaction_key p = actualPaymentId ?pd ''pay_1'' \<and> status p = ''Paid''"
    by (simp add: paid_world_def pay_1_row_def actualPaymentId_def pay_1_detail_def truthy_def)
  note a = no_billing_key_no_schedule_calls [OF h1 h2, of empty_world]
  note b = no_billing_key_no_schedule_calls [OF h1 h2, of paid_world]
  have p1: "filter is_schedule_call
              (trace (snd (handlePaidScenario one_time_env ''pay_1'' empty_world))) = []"
    using a by (auto simp: empty_world_def)
  have p2: "\<exists>resp. fst (handlePaidScenario one_time_env ''pay_1'' empty_world) = Inr resp
         \<and> success resp"
    using a ok ins paidWindow_one_time_env by simp
  have c1: "filter is_schedule_call
              (trace (snd (handleCancelledScenario one_time_env ''pay_1'' paid_world))) = []"
    using b by (auto simp: paid_world_def)
  have c2: "\<exists>resp. fst (handleCancelledScenario one_time_env ''pay_1'' paid_world) = Inr resp
         \<and> success resp"
    using b ok ins sel row by simp
  from h1 h0 h2 p1 p2 c1 c2 show ?thesis by simp
qed

text \<open>
  C6 as stated, with both flows succeeding, fails for the cancellation of a one-time
  payment that the ledger never recorded as paid. No call fails: the lookup answers 200
  with a detail that has no billing key, the select and the insert have no fault. The
  select finds no paid row, the flow throws, and the route answers 500 with
  \<^verbatim>\<open>success: false\<close>; no schedule call is made and the ledger stays empty.
\<close>

theorem no_billing_key_no_schedule_calls_counterexample:
  "get_payment one_time_env ''pay_1'' =
     FetchResponse 200 (Some (pay_1_detail\<lparr>pp_billingKey := None\<rparr>))
   \<and> pp_billingKey (pay_1_detail\<lparr>pp_billingKey := None\<rparr>) = None
   \<and> select_fault one_time_env = None
   \<and> insert_fault one_time_env = None
   \<and> payload_status cancelled_event = ''Cancelled''
   \<and> isl (fst (handleCancelledScenario one_time_env ''pay_1'' empty_world))
   \<and> success (fst (POST one_time_env (Some cancelled_event) empty_world)) = False
   \<and> http_status (fst (POST one_time_env (Some cancelled_event) empty_world)) = 500
   \<and> ledger (snd (POST one_time_env (Some cancelled_event) empty_world)) = []
   \<and> filter is_schedule_call
        (trace (snd (POST one_time_env (Some cancelled_event) empty_world))) = []"
  by (simp add: sample_defs date_defs flow_defs)

subsection \<open>C7: the key of the ledger lookup\<close>

text \<open>
  C7. In the cancellation flow, once the payment detail is there, exactly one ledger
  select is made, directly after the payment lookup, and its key is the detail's
  \<open>paymentId\<close> if present, else the detail's \<open>id\<close>, else the webhook's payment id
  (present meaning a non-empty string, as \<^verbatim>\<open>||\<close> reads it). A row the flow returns
  carries that key.
\<close>

theorem cancelled_lookup_key:
  assumes "get_payment e pid = FetchResponse st (Some pd)" and "ok st"
  shows "\<exists>k rest.
           trace (snd (handleCancelledScenario e pid w)) =
             trace w @ FetchGetPayment pid # DbSelectLatestPaid k # rest
         \<and> filter is_ledger_select rest = []
         \<and> (\<forall>a. pp_paymentId pd = Some a \<and> a \<noteq> [] \<longrightarrow> k = a)
         \<and> ((pp_paymentId pd = None \<or> pp_paymentId pd = Some []) \<and> pp_id pd \<noteq> []
              \<longrightarrow> k = pp_id pd)
         \<and> ((pp_paymentId pd = None \<or> pp_paymentId pd = Some []) \<and> pp_id pd = []
              \<longrightarrow> k = pid)
         \<and> (\<forall>resp row. fst (handleCancelledScenario e pid w) = Inr resp
               \<and> payment resp = Some row \<longrightarrow> transaction_key row = k)"
proof -
  let ?k = "actualPaymentId pd pid"
  have key: "(\<forall>a. pp_paymentId pd = Some a \<and> a \<noteq> [] \<longrightarrow> ?k = a)
         \<and> ((pp_paymentId pd = None \<or> pp_paymentId pd = Some []) \<and> pp_id pd \<noteq> []
              \<longrightarrow> ?k = pp_id pd)
         \<and> ((pp_paymentId pd = None \<or> pp_paymentId pd = Some []) \<and> pp_id pd = []
              \<longrightarrow> ?k = pid)"
    by (auto simp: actualPaymentId_def truthy_def)
  have "\<exists>rest. trace (snd (handleCancelledScenario e pid w)) =
             trace w @ FetchGetPayment pid # DbSelectLatestPaid ?k # rest
         \<and> filter is_ledger_select rest = []
         \<and> (\<forall>resp row. fst (handleCancelledScenario e pid w) = Inr resp
               \<and> payment resp = Some row \<longrightarrow> transaction_key row = ?k)"
  using assms
  proof (cases rule: handleCancelledScenario_cases [where w = w])
    case (not_found detail)
    then show ?thesis
      by (intro exI [of _ "[ConsoleError LogSelectFailed]"]) simp
  next
    case (insert_failed found msg)
    then show ?thesis
      by (intro exI [of _ "[DbInsert (cancelRecord found), ConsoleError LogCancelInsertFailed]"])
        simp
  next
    case (reversed found)
    let ?row = "PaymentRecord.extend (cancelRecord found)
                  \<lparr>row_id = length (ledger w), created_at = db_clock e\<rparr>"
    let ?w3 = "w\<lparr>ledger := ledger w @ [?row],
                 trace := trace w @ [FetchGetPayment pid, DbSelectLatestPaid ?k,
                                     DbInsert (cancelRecord found)]\<rparr>"
    have h: "handleCancelledScenario e pid w =
             (Inr \<lparr>success = True, message = Some CancelProcessed, payment = Some ?row,
                   error = None, http_status = 200\<rparr>, cancelNextSchedule e pd found ?w3)"
      using assms reversed refl by (rule handleCancelledScenario_reached)
    from cancelNextSchedule_trace [of e pd found ?w3]
    obtain new where n: "cancelNextSchedule e pd found ?w3 = ?w3\<lparr>trace := trace ?w3 @ new\<rparr>"
      "filter is_ledger_select new = []"
      by (elim exE conjE)
    have fk: "transaction_key found = ?k"
      using latest_paid_row [OF reversed(2)] by simp
    show ?thesis
      apply (rule exI [of _ "DbInsert (cancelRecord found) # new"])
      using n fk by (simp add: h cancelRecord_def PaymentRecord.extend_def)
  qed
  with key show ?thesis by blast
qed

text \<open>
  The sample detail has no \<open>paymentId\<close> and the id \<open>pay_1\<close>: the select asks for \<open>pay_1\<close>.
\<close>

theorem cancelled_lookup_key_witness:
  "get_payment demo_env ''pay_1'' = FetchResponse 200 (Some pay_1_detail) \<and> ok 200
   \<and> pp_paymentId pay_1_detail = None \<and> pp_id pay_1_detail = ''pay_1''
   \<and> (\<exists>rest. trace (snd (handleCancelledScenario demo_env ''pay_1'' paid_world)) =
          FetchGetPayment ''pay_1'' # DbSelectLatestPaid ''pay_1'' # rest
        \<and> filter is_ledger_select rest = [])"
proof -
  have h1: "get_payment demo_env ''pay_1'' = FetchResponse 200 (Some pay_1_detail)"
    by (simp add: demo_env_def)
  have h2: "ok 200" by (simp add: ok_def)
  have h3: "pp_paymentId pay_1_detail = None" by (simp add: pay_1_detail_def)
  have h4: "pp_id pay_1_detail = ''pay_1''" by (simp add: pay_1_detail_def)
  from cancelled_lookup_key [OF h1 h2, of paid_world]
  obtain k rest where
    r: "trace (snd (handleCancelledScenario demo_env ''pay_1'' paid_world)) =
             trace paid_world @ FetchGetPayment ''pay_1'' # DbSelectLatestPaid k # rest"
      "filter is_ledger_select rest = []"
      "(pp_paymentId pay_1_detail = None \<or> pp_paymentId pay_1_detail = Some [])
         \<and> pp_id pay_1_detail \<noteq> [] \<longrightarrow> k = pp_id pay_1_detail"
    by (elim exE conjE)
  have k: "k = ''pay_1''" using r(3) h3 h4 by simp
  have "trace (snd (handleCancelledScenario demo_env ''pay_1'' paid_world)) =
          FetchGetPayment ''pay_1'' # DbSelectLatestPaid ''pay_1'' # rest
        \<and> filter is_ledger_select rest = []"
    using r(1,2) k by (simp add: paid_world_def)
  then have "\<exists>rest. trace (snd (handleCancelledScenario demo_env ''pay_1'' paid_world)) =
          FetchGetPayment ''pay_1'' # DbSelectLatestPaid ''pay_1'' # rest
        \<and> filter is_ledger_select rest = []"
    by (intro exI [of _ rest])
  with h1 h2 h3 h4 show ?thesis by simp
qed

subsection \<open>C8: other status tags\<close>

text \<open>
  C8. An event whose status tag is neither \<open>Paid\<close> nor \<open>Cancelled\<close> is answered with
  the bare success response, and the world is left as it was: no call is recorded and
  the ledger is unchanged.
\<close>

theorem unknown_status_acknowledged:
  assumes "payload_status ev \<noteq> ''Paid''" and "payload_status ev \<noteq> ''Cancelled''"
  shows "POST e (Some ev) w =
           (\<lparr>success = True, message = None, payment = None, error = None,
             http_status = 200\<rparr>, w)"
  using assms by (simp add: POST_def)

text \<open>
  A delivery tagged \<open>Failed\<close>.
\<close>

theorem unknown_status_acknowledged_witness:
  "payload_status (paid_event\<lparr>payload_status := ''Failed''\<rparr>) \<noteq> ''Paid''
   \<and> payload_status (paid_event\<lparr>payload_status := ''Failed''\<rparr>) \<noteq> ''Cancelled''
   \<and> POST demo_env (Some (paid_event\<lparr>payload_status := ''Failed''\<rparr>)) paid_world =
       (\<lparr>success = True, message = None, payment = None, error = None, http_status = 200\<rparr>,
        paid_world)"
proof -
  have h1: "payload_status (paid_event\<lparr>payload_status := ''Failed''\<rparr>) \<noteq> ''Paid''" by simp
  have h2: "payload_status (paid_event\<lparr>payload_status := ''Failed''\<rparr>) \<noteq> ''Cancelled''" by simp
  show ?thesis
    using h1 h2 unknown_status_acknowledged [OF h1 h2, of demo_env paid_world] by simp
qed

subsection \<open>C9: registering the next schedule\<close>

text \<open>
  C9. A paid event whose detail has a (non-empty) billing key, whose lookup is ok, whose
  dates are valid and whose insert succeeds: the calls of the flow are the payment
  lookup, the insert, then one schedule registration, followed by log lines only. The
  registration is addressed to the freshly minted id that the inserted row stores as
  \<open>next_schedule_id\<close>, and carries the detail's billing key, order name, customer id and
  amount total, the currency \<open>KRW\<close>, and as \<open>timeToPay\<close> the \<open>next_schedule_at\<close> of the
  inserted row.
\<close>

theorem paid_registers_next_schedule:
  assumes "get_payment e pid = FetchResponse st (Some pd)" and "ok st"
    and "paidWindow e = Inr (s, en, g, nx)"
    and "insert_fault e = None"
    and "pp_billingKey pd = Some bk" and "bk \<noteq> []"
  shows "\<exists>r row logs.
           trace (snd (handlePaidScenario e pid w)) =
             trace w @
             [FetchGetPayment pid, DbInsert r,
              FetchPostSchedule
                \<lparr>sr_scheduleId = random_uuid e, sr_billingKey = bk,
                 sr_orderName = pp_orderName pd, sr_customer_id = pp_customer_id pd,
                 sr_amount_total = pp_amount_total pd, sr_currency = ''KRW'',
                 sr_timeToPay = nx\<rparr>] @ logs
         \<and> list_all is_console logs
         \<and> ledger (snd (handlePaidScenario e pid w)) = ledger w @ [row]
         \<and> next_schedule_id r = Some (random_uuid e) \<and> next_schedule_at r = Some nx
         \<and> next_schedule_id row = Some (random_uuid e) \<and> next_schedule_at row = Some nx"
proof -
  let ?r = "\<lparr>transaction_key = pid, amount = pp_amount_total pd, status = ''Paid'',
               start_at = s, end_at = en, end_grace_at = g,
               next_schedule_at = Some nx, next_schedule_id = Some (random_uuid e)\<rparr>"
  let ?row = "PaymentRecord.extend ?r \<lparr>row_id = length (ledger w), created_at = db_clock e\<rparr>"
  let ?w2 = "w\<lparr>ledger := ledger w @ [?row],
              trace := trace w @ [FetchGetPayment pid, DbInsert ?r]\<rparr>"
  let ?rq = "\<lparr>sr_scheduleId = random_uuid e, sr_billingKey = bk,
                 sr_orderName = pp_orderName pd, sr_customer_id = pp_customer_id pd,
                 sr_amount_total = pp_amount_total pd, sr_currency = ''KRW'',
                 sr_timeToPay = nx\<rparr>"
  have t: "truthy bk" using assms(6) by (simp add: truthy_def)
  from scheduleNextPayment_call [OF assms(5) t refl, of e "random_uuid e" nx ?w2]
  obtain logs where l: "snd (scheduleNextPayment e pd (random_uuid e) nx ?w2) =
                  ?w2\<lparr>trace := trace ?w2 @ FetchPostSchedule ?rq # logs\<rparr>"
    "list_all is_console logs"
    by (elim exE conjE)
  have w': "snd (handlePaidScenario e pid w) = ?w2\<lparr>trace := trace ?w2 @ FetchPostSchedule ?rq # logs\<rparr>"
    using snd_handlePaidScenario_reached(1) [OF assms(1-4) refl refl, of w] l(1) by simp
  show ?thesis
    apply (rule exI [of _ ?r], rule exI [of _ ?row], rule exI [of _ logs])
    using l(2) by (simp add: w' PaymentRecord.extend_def)
qed

text \<open>
  The sample payment registers schedule \<open>sched_1\<close> for 2024-02-01T10:24:00Z.
\<close>

theorem paid_registers_next_schedule_witness:
  "get_payment demo_env ''pay_1'' = FetchResponse 200 (Some pay_1_detail) \<and> ok 200
   \<and> paidWindow demo_env = Inr (1704067200000, 1706659200000, 1706745600000, 1706783040000)
   \<and> insert_fault demo_env = None
   \<and> pp_billingKey pay_1_detail = Some ''bk_1'' \<and> ''bk_1'' \<noteq> []
   \<and> (\<exists>r logs. trace (snd (handlePaidScenario demo_env ''pay_1'' empty_world)) =
         [FetchGetPayment ''pay_1'', DbInsert r,
          FetchPostSchedule
            \<lparr>sr_scheduleId = ''sched_1'', sr_billingKey = ''bk_1'', sr_orderName = ''monthly'',
             sr_customer_id = ''cus_1'', sr_amount_total = 9900, sr_currency = ''KRW'',
             sr_timeToPay = 1706783040000\<rparr>] @ logs
       \<and> list_all is_console logs
       \<and> next_schedule_id r = Some ''sched_1''
       \<and> next_schedule_at r = Some 1706783040000)"
proof -
  have h1: "get_payment demo_env ''pay_1'' = FetchResponse 200 (Some pay_1_detail)"
    by (simp add: demo_env_def)
  have h2: "ok 200" by (simp add: ok_def)
  note h3 = paidWindow_demo_env
  have h4: "insert_fault demo_env = None" by (simp add: demo_env_def)
  have h5: "pp_billingKey pay_1_detail = Some ''bk_1''" by (simp add: pay_1_detail_def)
  have h6: "''bk_1'' \<noteq> []" by simp
  from paid_registers_next_schedule [OF h1 h2 h3 h4 h5 h6, of empty_world]
  obtain r logs where
    t: "trace (snd (handlePaidScenario demo_env ''pay_1'' empty_world)) =
             trace empty_world @
             [FetchGetPayment ''pay_1'', DbInsert r,
              FetchPostSchedule
                \<lparr>sr_scheduleId = random_uuid demo_env, sr_billingKey = ''bk_1'',
                 sr_orderName = pp_orderName pay_1_detail,
                 sr_customer_id = pp_customer_id pay_1_detail,
                 sr_amount_total = pp_amount_total pay_1_detail, sr_currency = ''KRW'',
                 sr_timeToPay = 1706783040000\<rparr>] @ logs"
      "list_all is_console logs"
      "next_schedule_id r = Some (random_uuid demo_env)"
      "next_schedule_at r = Some 1706783040000"
    by (elim exE conjE)
  have "trace (snd (handlePaidScenario demo_env ''pay_1'' empty_world)) =
         [FetchGetPayment ''pay_1'', DbInsert r,
          FetchPostSchedule
            \<lparr>sr_scheduleId = ''sched_1'', sr_billingKey = ''bk_1'', sr_orderName = ''monthly'',
             sr_customer_id = ''cus_1'', sr_amount_total = 9900, sr_currency = ''KRW'',
             sr_timeToPay = 1706783040000\<rparr>] @ logs
       \<and> list_all is_console logs
       \<and> next_schedule_id r = Some ''sched_1''
       \<and> next_schedule_at r = Some 1706783040000"
    using t by (simp add: empty_world_def demo_env_def pay_1_detail_def)
  then have "\<exists>r logs. trace (snd (handlePaidScenario demo_env ''pay_1'' empty_world)) =
         [FetchGetPayment ''pay_1'', DbInsert r,
          FetchPostSchedule
            \<lparr>sr_scheduleId = ''sched_1'', sr_billingKey = ''bk_1'', sr_orderName = ''monthly'',
             sr_customer_id = ''cus_1'', sr_amount_total = 9900, sr_currency = ''KRW'',
             sr_timeToPay = 1706783040000\<rparr>] @ logs
       \<and> list_all is_console logs
       \<and> next_schedule_id r = Some ''sched_1''
       \<and> next_schedule_at r = Some 1706783040000"
    by (intro exI [of _ r] exI [of _ logs])
  with h1 h2 h3 h4 h5 h6 show ?thesis by simp
qed

subsection \<open>C10: which schedule is cancelled\<close>

text \<open>
  C10. In a cancellation that found its paid row and stored the reversal, the flow
  succeeds, and it calls the schedule cancellation at most once: when it does, a
  schedule query was made, its answer has an items array, and the argument is the
  one-element list of the \<open>id\<close> of the first item whose \<open>paymentId\<close> equals the found
  row's \<open>next_schedule_id\<close>. When the answer to the query has no items array, or no
  item matches, no cancellation call is made.
\<close>

theorem cancel_schedules_target:
  assumes "get_payment e pid = FetchResponse st (Some pd)" and "ok st"
    and "select_fault e = None"
    and "latest (paid_rows (actualPaymentId pd pid) (ledger w)) = Some found"
    and "insert_fault e = None"
  shows "\<exists>resp w' new.
           handleCancelledScenario e pid w = (Inr resp, w') \<and> success resp
         \<and> trace w' = trace w @ new
         \<and> (filter is_cancel_schedules new = []
            \<or> (\<exists>f dat its target.
                  AxiosGetSchedules f \<in> set new
                \<and> get_schedules e f = AxiosResolved dat \<and> items dat = Some its
                \<and> find (\<lambda>item. Some (si_paymentId item) = next_schedule_id found) its
                    = Some target
                \<and> filter is_cancel_schedules new = [FetchDeleteSchedules [si_id target]]))
         \<and> (\<forall>f dat. AxiosGetSchedules f \<in> set new \<and> get_schedules e f = AxiosResolved dat
               \<and> (items dat = None
                  \<or> (\<exists>its. items dat = Some its
                       \<and> find (\<lambda>item. Some (si_paymentId item) = next_schedule_id found) its
                           = None))
               \<longrightarrow> filter is_cancel_schedules new = [])"
proof -
  let ?k = "actualPaymentId pd pid"
  let ?P = "\<lambda>item. Some (si_paymentId item) = next_schedule_id found"
  let ?row = "PaymentRecord.extend (cancelRecord found)
                \<lparr>row_id = length (ledger w), created_at = db_clock e\<rparr>"
  let ?pre = "[FetchGetPayment pid, DbSelectLatestPaid ?k, DbInsert (cancelRecord found)]"
  let ?w3 = "w\<lparr>ledger := ledger w @ [?row], trace := trace w @ ?pre\<rparr>"
  let ?resp = "\<lparr>success = True, message = Some CancelProcessed, payment = Some ?row,
                 error = None, http_status = 200\<rparr>"
  have h: "handleCancelledScenario e pid w = (Inr ?resp, cancelNextSchedule e pd found ?w3)"
    using assms refl by (rule handleCancelledScenario_reached)
  from cancelNextSchedule_shape [of e pd found ?w3]
  obtain new where c: "cancelNextSchedule e pd found ?w3 = ?w3\<lparr>trace := trace ?w3 @ new\<rparr>"
    and s: "list_all is_console new
      \<or> (\<exists>f logs. new = AxiosGetSchedules f # logs \<and> list_all is_console logs
            \<and> (\<forall>dat its. get_schedules e f = AxiosResolved dat \<longrightarrow> items dat = Some its \<longrightarrow>
                   find ?P its = None))
      \<or> (\<exists>f dat its target logs.
            new = AxiosGetSchedules f # FetchDeleteSchedules [si_id target] # logs
            \<and> list_all is_console logs
            \<and> get_schedules e f = AxiosResolved dat \<and> items dat = Some its
            \<and> find ?P its = Some target)"
    by (elim exE conjE)
  have t: "trace (cancelNextSchedule e pd found ?w3) = trace w @ (?pre @ new)"
    using c by simp
  have pre: "filter is_cancel_schedules (?pre @ new) = filter is_cancel_schedules new"
    by simp
  have mem: "\<And>f. AxiosGetSchedules f \<in> set (?pre @ new) \<longleftrightarrow> AxiosGetSchedules f \<in> set new"
    by simp
  from s have
    "(filter is_cancel_schedules new = []
            \<or> (\<exists>f dat its target.
                  AxiosGetSchedules f \<in> set new
                \<and> get_schedules e f = AxiosResolved dat \<and> items dat = Some its
                \<and> find ?P its = Some target
                \<and> filter is_cancel_schedules new = [FetchDeleteSchedules [si_id target]]))
         \<and> (\<forall>f dat. AxiosGetSchedules f \<in> set new \<and> get_schedules e f = AxiosResolved dat
               \<and> (items dat = None \<or> (\<exists>its. items dat = Some its \<and> find ?P its = None))
               \<longrightarrow> filter is_cancel_schedules new = [])"
  proof (elim disjE exE conjE)
    assume "list_all is_console new"
    then show ?thesis by (simp add: console_no_cancel_schedules)
  next
    fix f logs
    assume "new = AxiosGetSchedules f # logs" "list_all is_console logs"
    then show ?thesis by (simp add: console_no_cancel_schedules)
  next
    fix f dat its target logs
    assume a: "new = AxiosGetSchedules f # FetchDeleteSchedules [si_id target] # logs"
      "list_all is_console logs" "get_schedules e f = AxiosResolved dat"
      "items dat = Some its" "find ?P its = Some target"
    have one: "filter is_cancel_schedules new = [FetchDeleteSchedules [si_id target]]"
      using a(1,2) by (simp add: console_no_cancel_schedules)
    have only: "\<And>f'. AxiosGetSchedules f' \<in> set new \<Longrightarrow> f' = f"
      using a(1,2) console_no_query by auto
    have first: "\<exists>f dat its target.
                  AxiosGetSchedules f \<in> set new
                \<and> get_schedules e f = AxiosResolved dat \<and> items dat = Some its
                \<and> find ?P its = Some target
                \<and> filter is_cancel_schedules new = [FetchDeleteSchedules [si_id target]]"
      apply (rule exI [of _ f], rule exI [of _ dat], rule exI [of _ its], rule exI [of _ target])
      using a one by simp
    have second: "\<forall>f' dat'. AxiosGetSchedules f' \<in> set new
               \<and> get_schedules e f' = AxiosResolved dat'
               \<and> (items dat' = None \<or> (\<exists>its. items dat' = Some its \<and> find ?P its = None))
               \<longrightarrow> filter is_cancel_schedules new = []"
    proof (intro allI impI, elim conjE)
      fix f' dat'
      assume b: "AxiosGetSchedules f' \<in> set new" "get_schedules e f' = AxiosResolved dat'"
        "items dat' = None \<or> (\<exists>its. items dat' = Some its \<and> find ?P its = None)"
      from only [OF b(1)] b(2) a(3) have "dat' = dat" by simp
      with b(3) a(4,5) show "filter is_cancel_schedules new = []" by auto
    qed
    from first second show ?thesis by blast
  qed
  then show ?thesis
    apply (intro exI [of _ ?resp] exI [of _ "cancelNextSchedule e pd found ?w3"]
        exI [of _ "?pre @ new"])
    unfolding pre mem using h t by simp
qed

text \<open>
  The sample cancellation: the second listed schedule is the one registered under
  \<open>sched_1\<close>, and it alone is cancelled.
\<close>

theorem cancel_schedules_target_witness:
  "get_payment demo_env ''pay_1'' = FetchResponse 200 (Some pay_1_detail) \<and> ok 200
   \<and> select_fault demo_env = None
   \<and> latest (paid_rows (actualPaymentId pay_1_detail ''pay_1'') (ledger paid_world))
       = Some pay_1_row
   \<and> insert_fault demo_env = None
   \<and> (\<exists>resp w'. handleCancelledScenario demo_env ''pay_1'' paid_world = (Inr resp, w')
        \<and> success resp
        \<and> filter is_cancel_schedules (trace w') = [FetchDeleteSchedules [''sch_A'']])"
proof -
  have h1: "get_payment demo_env ''pay_1'' = FetchResponse 200 (Some pay_1_detail)"
    by (simp add: demo_env_def)
  have h2: "ok 200" by (simp add: ok_def)
  have h3: "select_fault demo_env = None" by (simp add: demo_env_def)
  have h4: "latest (paid_rows (actualPaymentId pay_1_detail ''pay_1'') (ledger paid_world))
              = Some pay_1_row"
    by (simp add: paid_rows_def actualPaymentId_def truthy_def pay_1_detail_def paid_world_def
        pay_1_row_def)
  have h5: "insert_fault demo_env = None" by (simp add: demo_env_def)
  from cancel_schedules_target [OF h1 h2 h3 h4 h5]
  obtain resp w' where r: "handleCancelledScenario demo_env ''pay_1'' paid_world = (Inr resp, w')"
    "success resp"
    by (elim exE conjE)
  have "filter is_cancel_schedules (trace w') = [FetchDeleteSchedules [''sch_A'']]"
    using r(1) unfolding demo_cancellation by auto
  with r have "\<exists>resp w'. handleCancelledScenario demo_env ''pay_1'' paid_world = (Inr resp, w')
        \<and> success resp
        \<and> filter is_cancel_schedules (trace w') = [FetchDeleteSchedules [''sch_A'']]"
    by (intro exI [of _ resp] exI [of _ w']) simp
  with h1 h2 h3 h4 h5 show ?thesis by simp
qed

end
